theory Spec2Isabelle
  imports Complex_Main "HOL-Library.Word"
begin

section \<open>The GeneratePDFs Node SDK: client and Pdf handle\<close>

text \<open>
  A shallow embedding of \<^verbatim>\<open>src/GeneratePDFs.js\<close> and \<^verbatim>\<open>src/Pdf.js\<close>.

  \<^item> Exceptions are values: every operation returns \<open>exn + 'a\<close>, \<open>Inl\<close> the thrown
    exception. An \<^verbatim>\<open>async\<close> method is run to completion; a rejected promise is
    \<open>Inl\<close>.
  \<^item> The outside world is a record \<open>world\<close>: the file system (read only here), the
    remote server as a function of the requests issued so far and the current request,
    the log of requests issued through \<^verbatim>\<open>fetch\<close>, and the heap of \<^verbatim>\<open>Pdf\<close> objects.
    Operations take the world and return it updated.
  \<^item> The parts of the JavaScript runtime whose results the code only passes on
    (string-to-number conversion, printing of numbers that are not safe integers, date
    parsing, URL parsing) are fields of a record \<open>runtime\<close> and stay arbitrary in
    every theorem.
\<close>

subsection \<open>Numbers and their printing\<close>

text \<open>
  A JavaScript number is \<open>NaN\<close>, an infinity or a finite value. Finite values are
  rationals here, which include every finite double; \<open>-0\<close> is not told apart from
  \<open>0\<close> (both are falsy, both print as \<open>0\<close>, both satisfy \<open>x <= 0\<close>).
\<close>

datatype jsnum = NaN | NegInfinity | Finite rat | PosInfinity

text \<open>The comparison \<^verbatim>\<open>x <= 0\<close>; any comparison with \<open>NaN\<close> is false.\<close>

fun le_zero :: "jsnum \<Rightarrow> bool" where
  "le_zero NaN = False"
| "le_zero NegInfinity = True"
| "le_zero (Finite q) = (q \<le> 0)"
| "le_zero PosInfinity = False"

fun isNaN :: "jsnum \<Rightarrow> bool" where
  "isNaN NaN = True"
| "isNaN NegInfinity = False"
| "isNaN (Finite q) = False"
| "isNaN PosInfinity = False"

fun num_truthy :: "jsnum \<Rightarrow> bool" where
  "num_truthy NaN = False"
| "num_truthy NegInfinity = True"
| "num_truthy (Finite q) = (q \<noteq> 0)"
| "num_truthy PosInfinity = True"

function decimal :: "nat \<Rightarrow> string" where
  "decimal n = (if n < 10 then [''0123456789'' ! n]
                else decimal (n div 10) @ [''0123456789'' ! (n mod 10)])"
  by pat_completeness auto
termination
  by (relation "measure id") auto

declare decimal.simps [simp del]

definition int_to_string :: "int \<Rightarrow> string" where
  "int_to_string i = (if i < 0 then ''-'' @ decimal (nat (- i)) else decimal (nat i))"

text \<open>
  What the runtime computes and the code only passes on:
  \<^item> \<open>string_to_number\<close>: the numeric value of a string (\<^verbatim>\<open>Number("...")\<close>);
  \<^item> \<open>float_to_string\<close>: \<^verbatim>\<open>Number::toString\<close> on a value that is not a safe integer
    (a fraction, or a magnitude above \<open>2^53 - 1\<close>, where the shortest digits that
    identify the double are printed, padded with zeros or in exponent notation);
  \<^item> \<open>date_parse\<close>: the time value \<^verbatim>\<open>new Date(string)\<close> gets, \<open>NaN\<close> when the string
    does not parse;
  \<^item> \<open>url_parses\<close>: whether \<^verbatim>\<open>new URL(string)\<close> returns rather than throws.
\<close>

record runtime =
  string_to_number :: "string \<Rightarrow> jsnum"
  float_to_string :: "rat \<Rightarrow> string"
  date_parse :: "string \<Rightarrow> jsnum"
  url_parses :: "string \<Rightarrow> bool"

text \<open>
  \<^verbatim>\<open>Number::toString\<close>, as a template literal or \<^verbatim>\<open>String(n)\<close> applies it. A safe
  integer (magnitude at most \<open>2^53 - 1\<close>) prints as its exact decimal digits; every
  other finite value is left to the runtime.
\<close>

definition MAX_SAFE_INTEGER :: int where
  "MAX_SAFE_INTEGER = 9007199254740991"

fun number_to_string :: "runtime \<Rightarrow> jsnum \<Rightarrow> string" where
  "number_to_string rt NaN = ''NaN''"
| "number_to_string rt NegInfinity = ''-Infinity''"
| "number_to_string rt PosInfinity = ''Infinity''"
| "number_to_string rt (Finite q) =
     (if q = of_int \<lfloor>q\<rfloor> \<and> \<bar>\<lfloor>q\<rfloor>\<bar> \<le> MAX_SAFE_INTEGER then int_to_string \<lfloor>q\<rfloor>
      else float_to_string rt q)"

subsection \<open>Exceptions\<close>

text \<open>
  The two exception classes of \<^verbatim>\<open>src/exceptions\<close>, the plain \<^verbatim>\<open>Error\<close> the client
  throws for a failed request (the file system throws it too), and the runtime's
  \<^verbatim>\<open>TypeError\<close> and \<^verbatim>\<open>SyntaxError\<close>. Each carries its message.
\<close>

datatype exn =
    InvalidArgumentException string
  | RuntimeException string
  | Error string
  | TypeError string
  | SyntaxError string

text \<open>\<^verbatim>\<open>error instanceof InvalidArgumentException\<close>\<close>

fun instanceof_InvalidArgumentException :: "exn \<Rightarrow> bool" where
  "instanceof_InvalidArgumentException (InvalidArgumentException m) = True"
| "instanceof_InvalidArgumentException e = False"

text \<open>\<^verbatim>\<open>try { body } catch (error) { handler }\<close>, both ending in a value or a throw.\<close>

definition try_catch :: "exn + 'a \<Rightarrow> (exn \<Rightarrow> exn + 'a) \<Rightarrow> exn + 'a" where
  "try_catch body handler = (case body of Inl error \<Rightarrow> handler error | Inr v \<Rightarrow> Inr v)"

subsection \<open>Values of a decoded JSON body and their coercions\<close>

text \<open>
  The values \<^verbatim>\<open>response.json()\<close> can produce, and \<^verbatim>\<open>undefined\<close> for an absent
  property. An object is its list of own properties; the first binding of a key counts.
\<close>

datatype jsval =
    JUndefined
  | JNull
  | JBool bool
  | JNum jsnum
  | JStr string
  | JArr "jsval list"
  | JObj "(string \<times> jsval) list"

text \<open>Truthiness, as \<^verbatim>\<open>!v\<close> and \<^verbatim>\<open>if (v)\<close> read it.\<close>

fun truthy :: "jsval \<Rightarrow> bool" where
  "truthy JUndefined = False"
| "truthy JNull = False"
| "truthy (JBool b) = b"
| "truthy (JNum n) = num_truthy n"
| "truthy (JStr s) = (s \<noteq> [])"
| "truthy (JArr xs) = True"
| "truthy (JObj kvs) = True"

fun nullish :: "jsval \<Rightarrow> bool" where
  "nullish JUndefined = True"
| "nullish JNull = True"
| "nullish (JBool b) = False"
| "nullish (JNum n) = False"
| "nullish (JStr s) = False"
| "nullish (JArr xs) = False"
| "nullish (JObj kvs) = False"

text \<open>
  Property access \<^verbatim>\<open>v.k\<close> on a value that is neither \<^verbatim>\<open>null\<close> nor \<^verbatim>\<open>undefined\<close>, for
  the keys the code reads (\<open>data\<close>, \<open>id\<close>, \<open>name\<close>, \<open>status\<close>, \<open>download_url\<close>,
  \<open>created_at\<close>): no built-in prototype defines one of them, so a primitive or an array
  yields \<^verbatim>\<open>undefined\<close> and an object yields its own property.
\<close>

fun field :: "jsval \<Rightarrow> string \<Rightarrow> jsval" where
  "field (JObj kvs) k = (case map_of kvs k of Some v \<Rightarrow> v | None \<Rightarrow> JUndefined)"
| "field v k = JUndefined"

fun join :: "string \<Rightarrow> string list \<Rightarrow> string" where
  "join sep [] = []"
| "join sep [x] = x"
| "join sep (x # y # ys) = x @ sep @ join sep (y # ys)"

text \<open>Evaluating a list of steps from left to right; the first throw ends it.\<close>

fun sequence :: "(exn + 'a) list \<Rightarrow> exn + 'a list" where
  "sequence [] = Inr []"
| "sequence (Inl e # rs) = Inl e"
| "sequence (Inr x # rs) = (case sequence rs of Inl e \<Rightarrow> Inl e | Inr xs \<Rightarrow> Inr (x # xs))"

text \<open>
  Conversion of an object to a primitive. A decoded JSON object is a plain object:
  it inherits \<^verbatim>\<open>toString\<close> and \<^verbatim>\<open>valueOf\<close> from \<^verbatim>\<open>Object.prototype\<close> unless it has
  own properties of these names, and an own property is a JSON value, never a function.
  The inherited \<^verbatim>\<open>valueOf\<close> returns the object itself, so with either hint the
  primitive comes from \<^verbatim>\<open>toString\<close>: \<^verbatim>\<open>[object Object]\<close> from the inherited one,
  and a \<^verbatim>\<open>TypeError\<close> when an own property \<open>toString\<close> shadows it (an own \<open>valueOf\<close>
  changes nothing). An array has no own named properties; its inherited
  \<^verbatim>\<open>toString\<close> joins the elements.
\<close>

definition cannot_convert :: exn where
  "cannot_convert = TypeError ''Cannot convert object to primitive value''"

definition shadows_toString :: "(string \<times> jsval) list \<Rightarrow> bool" where
  "shadows_toString kvs = (map_of kvs ''toString'' \<noteq> None)"

text \<open>
  \<^verbatim>\<open>String(v)\<close> and the conversion inside a template literal. An array joins its
  elements with commas, \<^verbatim>\<open>null\<close> and \<^verbatim>\<open>undefined\<close> elements printing empty and the
  others converted in turn, so an element that cannot be converted makes the array
  throw as well.
\<close>

fun to_string :: "runtime \<Rightarrow> jsval \<Rightarrow> exn + string" where
  "to_string rt JUndefined = Inr ''undefined''"
| "to_string rt JNull = Inr ''null''"
| "to_string rt (JBool b) = Inr (if b then ''true'' else ''false'')"
| "to_string rt (JNum n) = Inr (number_to_string rt n)"
| "to_string rt (JStr s) = Inr s"
| "to_string rt (JArr xs) =
     (case sequence (map (\<lambda>x. if x = JUndefined \<or> x = JNull then Inr [] else to_string rt x) xs) of
        Inl e \<Rightarrow> Inl e
      | Inr parts \<Rightarrow> Inr (join '','' parts))"
| "to_string rt (JObj kvs) =
     (if shadows_toString kvs then Inl cannot_convert else Inr ''[object Object]'')"

text \<open>
  \<^verbatim>\<open>Number(v)\<close>. An array converts through its string; a plain object through
  \<^verbatim>\<open>[object Object]\<close>, which is not a number.
\<close>

fun to_number :: "runtime \<Rightarrow> jsval \<Rightarrow> exn + jsnum" where
  "to_number rt JUndefined = Inr NaN"
| "to_number rt JNull = Inr (Finite 0)"
| "to_number rt (JBool b) = Inr (if b then Finite 1 else Finite 0)"
| "to_number rt (JNum n) = Inr n"
| "to_number rt (JStr s) = Inr (string_to_number rt s)"
| "to_number rt (JArr xs) =
     (case to_string rt (JArr xs) of
        Inl e \<Rightarrow> Inl e
      | Inr s \<Rightarrow> Inr (string_to_number rt s))"
| "to_number rt (JObj kvs) = (if shadows_toString kvs then Inl cannot_convert else Inr NaN)"

subsection \<open>Dates\<close>

text \<open>A \<^verbatim>\<open>Date\<close> object is its time value; \<open>NaN\<close> is the invalid date.\<close>

datatype date = Date jsnum

fun getTime :: "date \<Rightarrow> jsnum" where
  "getTime (Date t) = t"

fun time_clip :: "jsnum \<Rightarrow> jsnum" where
  "time_clip NaN = NaN"
| "time_clip NegInfinity = NaN"
| "time_clip PosInfinity = NaN"
| "time_clip (Finite q) =
     (if \<bar>q\<bar> > 8640000000000000 then NaN
      else Finite (of_int (if q < 0 then - \<lfloor>- q\<rfloor> else \<lfloor>q\<rfloor>)))"

text \<open>
  \<^verbatim>\<open>new Date(v)\<close> with one argument: the argument is converted to a primitive first,
  which throws for an object that cannot be converted; a string primitive is parsed,
  any other is converted to a number and clipped to the valid range.
\<close>

fun new_Date :: "runtime \<Rightarrow> jsval \<Rightarrow> exn + date" where
  "new_Date rt (JStr s) = Inr (Date (date_parse rt s))"
| "new_Date rt (JArr xs) =
     (case to_string rt (JArr xs) of
        Inl e \<Rightarrow> Inl e
      | Inr s \<Rightarrow> Inr (Date (date_parse rt s)))"
| "new_Date rt (JObj kvs) =
     (case to_string rt (JObj kvs) of
        Inl e \<Rightarrow> Inl e
      | Inr s \<Rightarrow> Inr (Date (date_parse rt s)))"
| "new_Date rt v =
     (case to_number rt v of
        Inl e \<Rightarrow> Inl e
      | Inr n \<Rightarrow> Inr (Date (time_clip n)))"

subsection \<open>Bytes and base64\<close>

type_synonym byte = "8 word"

definition base64_alphabet :: string where
  "base64_alphabet = ''ABCDEFGHIJKLMNOPQRSTUVWXYZabcdefghijklmnopqrstuvwxyz0123456789+/''"

definition base64_char :: "nat \<Rightarrow> char" where
  "base64_char n = base64_alphabet ! (n mod 64)"

text \<open>\<^verbatim>\<open>buffer.toString('base64')\<close>: three bytes to four characters, padded with \<open>=\<close>.\<close>

fun base64 :: "byte list \<Rightarrow> string" where
  "base64 [] = []"
| "base64 [a] =
     [base64_char (unat a div 4), base64_char (unat a mod 4 * 16), CHR ''='', CHR ''='']"
| "base64 [a, b] =
     [base64_char (unat a div 4), base64_char (unat a mod 4 * 16 + unat b div 16),
      base64_char (unat b mod 16 * 4), CHR ''='']"
| "base64 (a # b # c # rest) =
     [base64_char (unat a div 4), base64_char (unat a mod 4 * 16 + unat b div 16),
      base64_char (unat b mod 16 * 4 + unat c div 64), base64_char (unat c mod 64)]
     @ base64 rest"

subsection \<open>The file system\<close>

text \<open>
  A path names nothing, a file that can be read, or something that exists and cannot
  be read as a file (a directory, a file without read permission); the latter carries
  the message of the system error that reading it throws. The claims only read files,
  so the file system does not change.
\<close>

datatype fs_entry = File "byte list" | Unreadable string

subsection \<open>Client, handle, requests and responses\<close>

record client =
  apiToken :: string
  baseUrl :: string

definition BASE_URL :: string where
  "BASE_URL = ''https://api.generatepdfs.com''"

definition connect :: "string \<Rightarrow> client" where
  "connect token = \<lparr>apiToken = token, baseUrl = BASE_URL\<rparr>"

text \<open>The private fields of a \<^verbatim>\<open>Pdf\<close>, as the constructor stores them.\<close>

record pdf =
  pdf_id :: jsnum
  pdf_name :: string
  pdf_status :: string
  pdf_downloadUrl :: string
  pdf_createdAt :: date
  pdf_client :: client

text \<open>
  What \<^verbatim>\<open>#detectMimeType\<close> can return: a string of the table or the default, or,
  since the table is a plain object literal, a member it inherits from
  \<^verbatim>\<open>Object.prototype\<close> (named by its key).
\<close>

datatype mime_value = MimeString string | Inherited string

record image_input =
  img_name :: string
  img_path :: string
  img_mimeType :: "string option"

record processed_image =
  out_name :: string
  out_content :: string
  out_mime_type :: mime_value

text \<open>
  The object handed to \<^verbatim>\<open>JSON.stringify\<close>: \<open>{html, css?, images?}\<close> or \<open>{url}\<close>. An
  optional property that was never assigned is \<open>None\<close>.
\<close>

record html_data =
  html :: string
  css :: "string option"
  images :: "processed_image list option"

datatype payload = HtmlData html_data | UrlData string

record request =
  req_url :: string
  req_method :: string
  req_headers :: "(string \<times> string) list"
  req_body :: "payload option"

text \<open>
  A response as the code reads it: the \<^verbatim>\<open>ok\<close> flag, the status line, and the body
  through \<^verbatim>\<open>text()\<close>, \<^verbatim>\<open>json()\<close> (which throws on a body that is not JSON) and
  \<^verbatim>\<open>arrayBuffer()\<close>.
\<close>

record response =
  resp_ok :: bool
  resp_status :: nat
  resp_statusText :: string
  resp_text :: string
  resp_json :: "exn + jsval"
  resp_arrayBuffer :: "byte list"

text \<open>
  The world: \<open>server\<close> answers a request given the requests issued before it (or
  makes \<^verbatim>\<open>fetch\<close> reject); \<open>requests\<close> logs every call of \<^verbatim>\<open>fetch\<close>, oldest first;
  \<open>heap\<close> holds the \<^verbatim>\<open>Pdf\<close> objects created so far, a handle being an index into it.
\<close>

record world =
  files :: "string \<Rightarrow> fs_entry option"
  server :: "request list \<Rightarrow> request \<Rightarrow> exn + response"
  requests :: "request list"
  heap :: "pdf list"

definition existsSync :: "world \<Rightarrow> string \<Rightarrow> bool" where
  "existsSync w p = (files w p \<noteq> None)"

definition readFileSync :: "world \<Rightarrow> string \<Rightarrow> exn + byte list" where
  "readFileSync w p =
     (case files w p of
        None \<Rightarrow> Inl (Error (''ENOENT: no such file or directory, open '' @ p))
      | Some (File bytes) \<Rightarrow> Inr bytes
      | Some (Unreadable msg) \<Rightarrow> Inl (Error msg))"

definition fetch :: "request \<Rightarrow> world \<Rightarrow> (exn + response) \<times> world" where
  "fetch rq w = (server w (requests w) rq, w\<lparr>requests := requests w @ [rq]\<rparr>)"

text \<open>\<^verbatim>\<open>new Pdf(...)\<close>: a fresh object at the end of the heap.\<close>

definition new_Pdf :: "pdf \<Rightarrow> world \<Rightarrow> nat \<times> world" where
  "new_Pdf p w = (length (heap w), w\<lparr>heap := heap w @ [p]\<rparr>)"

subsection \<open>Pdf.fromArray\<close>

text \<open>
  The template literal of the two messages converts \<^verbatim>\<open>data.created_at\<close> to a string,
  which can throw; so can the constructor of the date and each of the four coercions
  in the argument list of \<^verbatim>\<open>new Pdf\<close>, which are evaluated from left to right.
\<close>

definition created_at_message :: "runtime \<Rightarrow> jsval \<Rightarrow> exn + 'a" where
  "created_at_message rt data =
     (case to_string rt (field data ''created_at'') of
        Inl e \<Rightarrow> Inl e
      | Inr raw \<Rightarrow> Inl (InvalidArgumentException (''Invalid created_at format: '' @ raw)))"

definition fromArray :: "runtime \<Rightarrow> jsval \<Rightarrow> client \<Rightarrow> world \<Rightarrow> (exn + nat) \<times> world" where
  "fromArray rt data c w =
     (if nullish data then (Inl (TypeError ''Cannot read properties of null or undefined''), w)
      else if \<not> truthy (field data ''id'') \<or> \<not> truthy (field data ''name'')
              \<or> \<not> truthy (field data ''status'') \<or> \<not> truthy (field data ''download_url'')
              \<or> \<not> truthy (field data ''created_at'')
      then (Inl (InvalidArgumentException ''Invalid PDF data structure''), w)
      else
        (case try_catch
                (case new_Date rt (field data ''created_at'') of
                   Inl e \<Rightarrow> Inl e
                 | Inr createdAt \<Rightarrow>
                     if isNaN (getTime createdAt) then created_at_message rt data
                     else Inr createdAt)
                (\<lambda>error.
                   if instanceof_InvalidArgumentException error then Inl error
                   else created_at_message rt data)
         of
           Inl e \<Rightarrow> (Inl e, w)
         | Inr createdAt \<Rightarrow>
             (case to_number rt (field data ''id'') of
                Inl e \<Rightarrow> (Inl e, w)
              | Inr id' \<Rightarrow>
             (case to_string rt (field data ''name'') of
                Inl e \<Rightarrow> (Inl e, w)
              | Inr name \<Rightarrow>
             (case to_string rt (field data ''status'') of
                Inl e \<Rightarrow> (Inl e, w)
              | Inr status \<Rightarrow>
             (case to_string rt (field data ''download_url'') of
                Inl e \<Rightarrow> (Inl e, w)
              | Inr downloadUrl \<Rightarrow>
                  (case new_Pdf
                          \<lparr>pdf_id = id', pdf_name = name, pdf_status = status,
                           pdf_downloadUrl = downloadUrl, pdf_createdAt = createdAt,
                           pdf_client = c\<rparr> w
                   of (h, w') \<Rightarrow> (Inr h, w'))))))))"

subsection \<open>The client's requests\<close>

definition makeRequest :: "client \<Rightarrow> string \<Rightarrow> payload \<Rightarrow> world \<Rightarrow> (exn + jsval) \<times> world" where
  "makeRequest c endpoint data w =
     (let url = baseUrl c @ endpoint
      in case fetch \<lparr>req_url = url, req_method = ''POST'',
                      req_headers = [(''Authorization'', ''Bearer '' @ apiToken c),
                                     (''Content-Type'', ''application/json'')],
                      req_body = Some data\<rparr> w
         of
           (Inl e, w') \<Rightarrow> (Inl e, w')
         | (Inr response, w') \<Rightarrow>
             if \<not> resp_ok response
             then (let errorText = resp_text response
                   in (Inl (Error (''API request failed: '' @ decimal (resp_status response) @ '' ''
                                   @ resp_statusText response @ '' - '' @ errorText)), w'))
             else (resp_json response, w'))"

definition makeGetRequest :: "client \<Rightarrow> string \<Rightarrow> world \<Rightarrow> (exn + jsval) \<times> world" where
  "makeGetRequest c endpoint w =
     (let url = baseUrl c @ endpoint
      in case fetch \<lparr>req_url = url, req_method = ''GET'',
                      req_headers = [(''Authorization'', ''Bearer '' @ apiToken c)],
                      req_body = None\<rparr> w
         of
           (Inl e, w') \<Rightarrow> (Inl e, w')
         | (Inr response, w') \<Rightarrow>
             if \<not> resp_ok response
             then (let errorText = resp_text response
                   in (Inl (Error (''API request failed: '' @ decimal (resp_status response) @ '' ''
                                   @ resp_statusText response @ '' - '' @ errorText)), w'))
             else (resp_json response, w'))"

definition downloadPdf :: "client \<Rightarrow> string \<Rightarrow> world \<Rightarrow> (exn + byte list) \<times> world" where
  "downloadPdf c downloadUrl w =
     (case fetch \<lparr>req_url = downloadUrl, req_method = ''GET'',
                   req_headers = [(''Authorization'', ''Bearer '' @ apiToken c)],
                   req_body = None\<rparr> w
      of
        (Inl e, w') \<Rightarrow> (Inl e, w')
      | (Inr response, w') \<Rightarrow>
          if \<not> resp_ok response
          then (Inl (Error (''Failed to download PDF: '' @ resp_statusText response)), w')
          else (Inr (resp_arrayBuffer response), w'))"

text \<open>
  The lines every generating and fetching method ends with:
  \<^verbatim>\<open>if (!response.data) throw ...; return Pdf.fromArray(response.data, this)\<close>, where
  \<^verbatim>\<open>response\<close> is the decoded body. Reading \<^verbatim>\<open>.data\<close> of \<^verbatim>\<open>null\<close> throws.
\<close>

definition handleResponse :: "runtime \<Rightarrow> client \<Rightarrow> jsval \<Rightarrow> world \<Rightarrow> (exn + nat) \<times> world" where
  "handleResponse rt c response w =
     (if nullish response then (Inl (TypeError ''Cannot read properties of null or undefined''), w)
      else if \<not> truthy (field response ''data'')
      then (Inl (InvalidArgumentException ''Invalid API response: missing data''), w)
      else fromArray rt (field response ''data'') c w)"

subsection \<open>Image processing\<close>

text \<open>\<^verbatim>\<open>s.split('.')\<close>: the segments between separators, never an empty array.\<close>

fun split_on :: "char \<Rightarrow> string \<Rightarrow> string list" where
  "split_on sep [] = [[]]"
| "split_on sep (ch # cs) =
     (if ch = sep then [] # split_on sep cs
      else (case split_on sep cs of
              [] \<Rightarrow> [[ch]]
            | seg # segs \<Rightarrow> (ch # seg) # segs))"

text \<open>\<^verbatim>\<open>array.pop()\<close>, for its value: the last element, \<^verbatim>\<open>undefined\<close> on an empty array.\<close>

definition pop :: "'a list \<Rightarrow> 'a option" where
  "pop xs = (if xs = [] then None else Some (last xs))"

text \<open>
  \<^verbatim>\<open>toLowerCase\<close> on the letters that matter for the table below: \<open>A\<close> to \<open>Z\<close>. No
  other character lowers to a letter of a key of the table.
\<close>

definition toLowerCase_char :: "char \<Rightarrow> char" where
  "toLowerCase_char ch =
     (case map_of (zip ''ABCDEFGHIJKLMNOPQRSTUVWXYZ'' ''abcdefghijklmnopqrstuvwxyz'') ch of
        Some l \<Rightarrow> l
      | None \<Rightarrow> ch)"

definition toLowerCase :: "string \<Rightarrow> string" where
  "toLowerCase s = map toLowerCase_char s"

definition mimeTypes :: "(string \<times> string) list" where
  "mimeTypes =
     [(''jpg'', ''image/jpeg''),
      (''jpeg'', ''image/jpeg''),
      (''png'', ''image/png''),
      (''gif'', ''image/gif''),
      (''webp'', ''image/webp''),
      (''svg'', ''image/svg+xml'')]"

text \<open>
  The keys every object literal inherits from \<^verbatim>\<open>Object.prototype\<close>; \<^verbatim>\<open>mimeTypes[k]\<close>
  finds them when the table has no own property \<open>k\<close>, and none of them is \<^verbatim>\<open>null\<close> or
  \<^verbatim>\<open>undefined\<close>, so \<^verbatim>\<open>??\<close> keeps them.
\<close>

definition Object_prototype_keys :: "string list" where
  "Object_prototype_keys =
     [''constructor'', ''__proto__'', ''hasOwnProperty'', ''isPrototypeOf'',
      ''propertyIsEnumerable'', ''toLocaleString'', ''toString'', ''valueOf'',
      ''__defineGetter__'', ''__defineSetter__'', ''__lookupGetter__'', ''__lookupSetter__'']"

definition detectMimeType :: "string \<Rightarrow> mime_value" where
  "detectMimeType filePath =
     (let extension = (case pop (split_on CHR ''.'' filePath) of
                         Some e \<Rightarrow> toLowerCase e
                       | None \<Rightarrow> [])
      in case map_of mimeTypes extension of
           Some m \<Rightarrow> MimeString m
         | None \<Rightarrow>
             if extension \<in> set Object_prototype_keys then Inherited extension
             else MimeString ''application/octet-stream'')"

text \<open>
  \<^verbatim>\<open>#processImages\<close>: the loop over the inputs (\<open>img\<close> is the source's \<^verbatim>\<open>image\<close>), with \<open>processed\<close> the array built so
  far. \<^verbatim>\<open>readFileSync\<close> may throw, which ends the loop and the method.
\<close>

fun processImages_loop ::
  "world \<Rightarrow> image_input list \<Rightarrow> processed_image list \<Rightarrow> exn + processed_image list" where
  "processImages_loop w [] processed = Inr processed"
| "processImages_loop w (img # rest) processed =
     (if img_path img = [] \<or> img_name img = [] then processImages_loop w rest processed
      else if \<not> existsSync w (img_path img) then processImages_loop w rest processed
      else (case readFileSync w (img_path img) of
              Inl e \<Rightarrow> Inl e
            | Inr content \<Rightarrow>
                processImages_loop w rest
                  (processed @
                   [\<lparr>out_name = img_name img,
                     out_content = base64 content,
                     out_mime_type =
                       (case img_mimeType img of
                          Some m \<Rightarrow> MimeString m
                        | None \<Rightarrow> detectMimeType (img_path img))\<rparr>])))"

definition processImages :: "world \<Rightarrow> image_input list \<Rightarrow> exn + processed_image list" where
  "processImages w imgs = processImages_loop w imgs []"

subsection \<open>The client's public methods\<close>

text \<open>\<open>cssPath\<close> is \<open>None\<close> for \<^verbatim>\<open>null\<close>, \<^verbatim>\<open>undefined\<close> and an omitted argument.\<close>

definition generateFromHtml ::
  "runtime \<Rightarrow> client \<Rightarrow> string \<Rightarrow> string option \<Rightarrow> image_input list \<Rightarrow> world
     \<Rightarrow> (exn + nat) \<times> world" where
  "generateFromHtml rt c htmlPath cssPath imgs w =
     (if \<not> existsSync w htmlPath
      then (Inl (InvalidArgumentException
                   (''HTML file not found or not readable: '' @ htmlPath)), w)
      else
        (case readFileSync w htmlPath of
           Inl e \<Rightarrow> (Inl e, w)
         | Inr htmlContent \<Rightarrow>
             (let data = \<lparr>html = base64 htmlContent, css = None, images = None\<rparr>
              in case (case cssPath of
                         None \<Rightarrow> Inr data
                       | Some cp \<Rightarrow>
                           if \<not> existsSync w cp
                           then Inl (InvalidArgumentException
                                       (''CSS file not found or not readable: '' @ cp))
                           else (case readFileSync w cp of
                                   Inl e \<Rightarrow> Inl e
                                 | Inr cssContent \<Rightarrow> Inr (data\<lparr>css := Some (base64 cssContent)\<rparr>)))
                 of
                   Inl e \<Rightarrow> (Inl e, w)
                 | Inr data1 \<Rightarrow>
                     (case (if length imgs > 0
                            then (case processImages w imgs of
                                    Inl e \<Rightarrow> Inl e
                                  | Inr processed \<Rightarrow> Inr (data1\<lparr>images := Some processed\<rparr>))
                            else Inr data1)
                      of
                        Inl e \<Rightarrow> (Inl e, w)
                      | Inr data2 \<Rightarrow>
                          (case makeRequest c ''/pdfs/generate'' (HtmlData data2) w of
                             (Inl e, w') \<Rightarrow> (Inl e, w')
                           | (Inr response, w') \<Rightarrow> handleResponse rt c response w')))))"

definition generateFromUrl ::
  "runtime \<Rightarrow> client \<Rightarrow> string \<Rightarrow> world \<Rightarrow> (exn + nat) \<times> world" where
  "generateFromUrl rt c url w =
     (case try_catch (if url_parses rt url then Inr () else Inl (TypeError ''Invalid URL''))
             (\<lambda>error. Inl (InvalidArgumentException (''Invalid URL: '' @ url)))
      of
        Inl e \<Rightarrow> (Inl e, w)
      | Inr u \<Rightarrow>
          (case makeRequest c ''/pdfs/generate'' (UrlData url) w of
             (Inl e, w') \<Rightarrow> (Inl e, w')
           | (Inr response, w') \<Rightarrow> handleResponse rt c response w'))"

definition getPdf :: "runtime \<Rightarrow> client \<Rightarrow> jsnum \<Rightarrow> world \<Rightarrow> (exn + nat) \<times> world" where
  "getPdf rt c id' w =
     (if le_zero id'
      then (Inl (InvalidArgumentException (''Invalid PDF ID: '' @ number_to_string rt id')), w)
      else
        (case makeGetRequest c (''/pdfs/'' @ number_to_string rt id') w of
           (Inl e, w') \<Rightarrow> (Inl e, w')
         | (Inr response, w') \<Rightarrow> handleResponse rt c response w'))"

subsection \<open>The methods of a Pdf handle\<close>

text \<open>A handle \<open>h\<close> is the index of its object in the heap; \<open>this\<close> is that object.\<close>

definition getId :: "nat \<Rightarrow> world \<Rightarrow> jsnum" where
  "getId h w = pdf_id (heap w ! h)"

definition getName :: "nat \<Rightarrow> world \<Rightarrow> string" where
  "getName h w = pdf_name (heap w ! h)"

definition getStatus :: "nat \<Rightarrow> world \<Rightarrow> string" where
  "getStatus h w = pdf_status (heap w ! h)"

definition getDownloadUrl :: "nat \<Rightarrow> world \<Rightarrow> string" where
  "getDownloadUrl h w = pdf_downloadUrl (heap w ! h)"

definition getCreatedAt :: "nat \<Rightarrow> world \<Rightarrow> date" where
  "getCreatedAt h w = pdf_createdAt (heap w ! h)"

definition isReady :: "nat \<Rightarrow> world \<Rightarrow> bool" where
  "isReady h w = (pdf_status (heap w ! h) = ''completed'')"

definition download :: "nat \<Rightarrow> world \<Rightarrow> (exn + byte list) \<times> world" where
  "download h w =
     (let this = heap w ! h
      in if \<not> isReady h w
         then (Inl (RuntimeException
                      (''PDF is not ready yet. Current status: '' @ pdf_status this)), w)
         else downloadPdf (pdf_client this) (pdf_downloadUrl this) w)"

definition refresh :: "runtime \<Rightarrow> nat \<Rightarrow> world \<Rightarrow> (exn + nat) \<times> world" where
  "refresh rt h w =
     (let this = heap w ! h
      in getPdf rt (pdf_client this) (pdf_id this) w)"

section \<open>Vocabulary of the specification\<close>

text \<open>
  The words the specification and the theorems use about the code above: what a
  valid raw data object is, what the handle built from it holds, which image inputs
  pass the checks of the code and which fail validation in the specification's sense,
  and what an error message carries.
\<close>

definition required_fields_truthy :: "jsval \<Rightarrow> bool" where
  "required_fields_truthy data =
     (truthy (field data ''id'') \<and> truthy (field data ''name'')
      \<and> truthy (field data ''status'') \<and> truthy (field data ''download_url'')
      \<and> truthy (field data ''created_at''))"

text \<open>
  \<^verbatim>\<open>new Date(created_at)\<close> returned a valid date; it returned the invalid date.
  Neither holds when the constructor threw.
\<close>

definition created_at_valid :: "runtime \<Rightarrow> jsval \<Rightarrow> bool" where
  "created_at_valid rt data =
     (case new_Date rt (field data ''created_at'') of
        Inl e \<Rightarrow> False
      | Inr d \<Rightarrow> \<not> isNaN (getTime d))"

definition created_at_invalid :: "runtime \<Rightarrow> jsval \<Rightarrow> bool" where
  "created_at_invalid rt data =
     (case new_Date rt (field data ''created_at'') of
        Inl e \<Rightarrow> False
      | Inr d \<Rightarrow> isNaN (getTime d))"

text \<open>
  The error of the \<open>try\<close> statement of the factory when the date is invalid: the
  message with the raw value, or the \<^verbatim>\<open>TypeError\<close> of printing the raw value.
\<close>

definition created_at_error :: "runtime \<Rightarrow> jsval \<Rightarrow> exn" where
  "created_at_error rt data =
     (case to_string rt (field data ''created_at'') of
        Inl e \<Rightarrow> e
      | Inr raw \<Rightarrow> InvalidArgumentException (''Invalid created_at format: '' @ raw))"

text \<open>
  The object a handle built from \<open>data\<close> refers to: the coerced fields, or the first
  \<^verbatim>\<open>TypeError\<close> on the way (date, id, name, status, download URL).
\<close>

definition pdf_of_data :: "runtime \<Rightarrow> jsval \<Rightarrow> client \<Rightarrow> exn + pdf" where
  "pdf_of_data rt data c =
     (case new_Date rt (field data ''created_at'') of
        Inl e \<Rightarrow> Inl e
      | Inr createdAt \<Rightarrow>
     (case to_number rt (field data ''id'') of
        Inl e \<Rightarrow> Inl e
      | Inr id' \<Rightarrow>
     (case to_string rt (field data ''name'') of
        Inl e \<Rightarrow> Inl e
      | Inr name \<Rightarrow>
     (case to_string rt (field data ''status'') of
        Inl e \<Rightarrow> Inl e
      | Inr status \<Rightarrow>
     (case to_string rt (field data ''download_url'') of
        Inl e \<Rightarrow> Inl e
      | Inr downloadUrl \<Rightarrow>
          Inr \<lparr>pdf_id = id', pdf_name = name, pdf_status = status,
               pdf_downloadUrl = downloadUrl, pdf_createdAt = createdAt,
               pdf_client = c\<rparr>)))))"

text \<open>A value that is not an object or an array; converting one never throws.\<close>

fun primitive :: "jsval \<Rightarrow> bool" where
  "primitive (JArr xs) = False"
| "primitive (JObj kvs) = False"
| "primitive v = True"

definition primitive_fields :: "jsval \<Rightarrow> bool" where
  "primitive_fields data =
     (primitive (field data ''id'') \<and> primitive (field data ''name'')
      \<and> primitive (field data ''status'') \<and> primitive (field data ''download_url'')
      \<and> primitive (field data ''created_at''))"

text \<open>The response type the code declares: a numeric id, the other fields strings.\<close>

fun is_number :: "jsval \<Rightarrow> bool" where
  "is_number (JNum n) = True"
| "is_number v = False"

fun is_string :: "jsval \<Rightarrow> bool" where
  "is_string (JStr s) = True"
| "is_string v = False"

definition declared_types :: "jsval \<Rightarrow> bool" where
  "declared_types data =
     (is_number (field data ''id'') \<and> is_string (field data ''name'')
      \<and> is_string (field data ''status'') \<and> is_string (field data ''download_url'')
      \<and> is_string (field data ''created_at''))"

text \<open>
  An image input passes the three checks the loop of \<^verbatim>\<open>#processImages\<close> makes before
  it reads the file. This is the code's test, which asks whether the path exists.
\<close>

definition passes_checks :: "world \<Rightarrow> image_input \<Rightarrow> bool" where
  "passes_checks w img =
     (img_path img \<noteq> [] \<and> img_name img \<noteq> [] \<and> existsSync w (img_path img))"

text \<open>
  The specification's words for an image that fails local validation: the name or
  the path is empty, or the path is unreadable.
\<close>

definition readable :: "world \<Rightarrow> string \<Rightarrow> bool" where
  "readable w p = (case files w p of Some (File bytes) \<Rightarrow> True | _ \<Rightarrow> False)"

definition fails_local_validation :: "world \<Rightarrow> image_input \<Rightarrow> bool" where
  "fails_local_validation w img =
     (img_name img = [] \<or> img_path img = [] \<or> \<not> readable w (img_path img))"

definition file_bytes :: "world \<Rightarrow> string \<Rightarrow> byte list" where
  "file_bytes w p = (case files w p of Some (File bytes) \<Rightarrow> bytes | _ \<Rightarrow> [])"

definition processed_of :: "world \<Rightarrow> image_input \<Rightarrow> processed_image" where
  "processed_of w img =
     \<lparr>out_name = img_name img,
      out_content = base64 (file_bytes w (img_path img)),
      out_mime_type =
        (case img_mimeType img of
           Some m \<Rightarrow> MimeString m
         | None \<Rightarrow> detectMimeType (img_path img))\<rparr>"

text \<open>
  The payload \<^verbatim>\<open>generateFromHtml\<close> has built when it reaches the images: the HTML
  and CSS steps of the method, on their own.
\<close>

definition html_css_data :: "world \<Rightarrow> string \<Rightarrow> string option \<Rightarrow> exn + html_data" where
  "html_css_data w htmlPath cssPath =
     (if \<not> existsSync w htmlPath
      then Inl (InvalidArgumentException (''HTML file not found or not readable: '' @ htmlPath))
      else
        (case readFileSync w htmlPath of
           Inl e \<Rightarrow> Inl e
         | Inr htmlContent \<Rightarrow>
             (case cssPath of
                None \<Rightarrow> Inr \<lparr>html = base64 htmlContent, css = None, images = None\<rparr>
              | Some cp \<Rightarrow>
                  if \<not> existsSync w cp
                  then Inl (InvalidArgumentException
                              (''CSS file not found or not readable: '' @ cp))
                  else (case readFileSync w cp of
                          Inl e \<Rightarrow> Inl e
                        | Inr cssContent \<Rightarrow>
                            Inr \<lparr>html = base64 htmlContent,
                                 css = Some (base64 cssContent), images = None\<rparr>))))"

text \<open>Posting a payload to the generation endpoint and reading the answer.\<close>

definition post_generate :: "runtime \<Rightarrow> client \<Rightarrow> payload \<Rightarrow> world \<Rightarrow> (exn + nat) \<times> world" where
  "post_generate rt c body w =
     (case makeRequest c ''/pdfs/generate'' body w of
        (Inl e, w') \<Rightarrow> (Inl e, w')
      | (Inr response, w') \<Rightarrow> handleResponse rt c response w')"

definition post_request :: "client \<Rightarrow> string \<Rightarrow> payload \<Rightarrow> request" where
  "post_request c endpoint body =
     \<lparr>req_url = baseUrl c @ endpoint, req_method = ''POST'',
      req_headers = [(''Authorization'', ''Bearer '' @ apiToken c),
                     (''Content-Type'', ''application/json'')],
      req_body = Some body\<rparr>"

definition get_request :: "client \<Rightarrow> string \<Rightarrow> request" where
  "get_request c url =
     \<lparr>req_url = url, req_method = ''GET'',
      req_headers = [(''Authorization'', ''Bearer '' @ apiToken c)],
      req_body = None\<rparr>"

fun message :: "exn \<Rightarrow> string" where
  "message (InvalidArgumentException m) = m"
| "message (RuntimeException m) = m"
| "message (Error m) = m"
| "message (TypeError m) = m"
| "message (SyntaxError m) = m"

text \<open>\<open>contains sub s\<close>: the text \<open>sub\<close> occurs in \<open>s\<close>.\<close>

fun starts_with :: "string \<Rightarrow> string \<Rightarrow> bool" where
  "starts_with [] s = True"
| "starts_with (x # xs) [] = False"
| "starts_with (x # xs) (y # ys) = (x = y \<and> starts_with xs ys)"

fun contains :: "string \<Rightarrow> string \<Rightarrow> bool" where
  "contains sub [] = (sub = [])"
| "contains sub (y # ys) = (starts_with sub (y # ys) \<or> contains sub ys)"

text \<open>The error of a failed API request, and the world after one more request.\<close>

definition api_error :: "response \<Rightarrow> exn" where
  "api_error r =
     Error (''API request failed: '' @ decimal (resp_status r) @ '' '' @ resp_statusText r
            @ '' - '' @ resp_text r)"

definition sent :: "request \<Rightarrow> world \<Rightarrow> world" where
  "sent rq w = w\<lparr>requests := requests w @ [rq]\<rparr>"

text \<open>
  The handle \<open>h\<close> of the world \<open>w'\<close> was built from the raw data \<open>d\<close>: the raw
  fields are truthy, the getters return their coercions, and the date is valid.
\<close>

definition handle_of_data :: "runtime \<Rightarrow> jsval \<Rightarrow> nat \<Rightarrow> world \<Rightarrow> bool" where
  "handle_of_data rt d h w' =
     (truthy (field d ''id'') \<and> truthy (field d ''name'') \<and> truthy (field d ''status'')
      \<and> truthy (field d ''download_url'') \<and> truthy (field d ''created_at'')
      \<and> to_number rt (field d ''id'') = Inr (getId h w')
      \<and> to_string rt (field d ''name'') = Inr (getName h w')
      \<and> to_string rt (field d ''status'') = Inr (getStatus h w')
      \<and> to_string rt (field d ''download_url'') = Inr (getDownloadUrl h w')
      \<and> new_Date rt (field d ''created_at'') = Inr (getCreatedAt h w')
      \<and> \<not> isNaN (getTime (getCreatedAt h w')))"

text \<open>No getter of the handle returns a falsy value or an invalid date.\<close>

definition fields_truthy :: "nat \<Rightarrow> world \<Rightarrow> bool" where
  "fields_truthy h w' =
     (num_truthy (getId h w') \<and> getName h w' \<noteq> [] \<and> getStatus h w' \<noteq> []
      \<and> getDownloadUrl h w' \<noteq> [] \<and> \<not> isNaN (getTime (getCreatedAt h w')))"

text \<open>
  The \<open>data\<close> property of the decoded body the server sent in answer to \<open>rq\<close>
  (\<^verbatim>\<open>undefined\<close> when there is none).
\<close>

definition response_data :: "world \<Rightarrow> request \<Rightarrow> jsval" where
  "response_data w rq =
     (case server w (requests w) rq of
        Inl e \<Rightarrow> JUndefined
      | Inr r \<Rightarrow> (case resp_json r of
                    Inl e \<Rightarrow> JUndefined
                  | Inr response \<Rightarrow> field response ''data''))"

text \<open>
  The handle \<open>h\<close> that a call returned, leaving the world \<open>w'\<close>, was built by
  \<^verbatim>\<open>Pdf.fromArray\<close> from the truthy \<open>data\<close> of the answer to the request the call
  sent; its getters return the coercions of the raw fields; and when the raw fields have
  the declared types, no getter returns a falsy value.
\<close>

definition validated_handle :: "runtime \<Rightarrow> client \<Rightarrow> world \<Rightarrow> nat \<Rightarrow> world \<Rightarrow> bool" where
  "validated_handle rt c w h w' =
     (let rq = last (requests w'); d = response_data w rq
      in truthy d
         \<and> fromArray rt d c (sent rq w) = (Inr h, w')
         \<and> handle_of_data rt d h w'
         \<and> (declared_types d \<longrightarrow> fields_truthy h w'))"

section \<open>An example world, after the test suite\<close>

text \<open>
  A runtime that agrees with Node on the strings used below, the client and the
  response data of the tests, and a small file system: an HTML file, a CSS file, two
  image files and the directory that holds them.
\<close>

definition test_runtime :: runtime where
  "test_runtime =
     \<lparr>string_to_number = (\<lambda>s. if s = ''123'' then Finite 123 else NaN),
      float_to_string = (\<lambda>q. if q = 3 / 2 then ''1.5'' else []),
      date_parse = (\<lambda>s. if s = ''2024-01-01T12:00:00.000000Z''
                          then Finite 1704110400000 else NaN),
      url_parses = (\<lambda>s. s = ''https://example.com'')\<rparr>"

definition test_client :: client where
  "test_client = connect ''test-api-token''"

definition test_fields :: "jsval \<Rightarrow> string \<Rightarrow> (string \<times> jsval) list" where
  "test_fields ident st =
     [(''id'', ident),
      (''name'', JStr ''test.pdf''),
      (''status'', JStr st),
      (''download_url'', JStr ''https://api.generatepdfs.com/pdfs/123/download/token''),
      (''created_at'', JStr ''2024-01-01T12:00:00.000000Z'')]"

definition test_data :: "jsval \<Rightarrow> string \<Rightarrow> jsval" where
  "test_data ident st = JObj (test_fields ident st)"

definition test_files :: "string \<Rightarrow> fs_entry option" where
  "test_files =
     [''/tmp'' \<mapsto> Unreadable ''EISDIR: illegal operation on a directory, read'',
      ''/tmp/test.html'' \<mapsto> File [60, 112, 62],
      ''/tmp/test.css'' \<mapsto> File [112, 123, 125],
      ''/tmp/test.png'' \<mapsto> File [137, 80, 78, 71],
      ''/tmp/photo.constructor'' \<mapsto> File [137, 80, 78, 71]]"

text \<open>A server that answers every request with the given status and the given data.\<close>

definition ok_response :: "jsval \<Rightarrow> response" where
  "ok_response body =
     \<lparr>resp_ok = True, resp_status = 200, resp_statusText = ''OK'', resp_text = [],
      resp_json = Inr body, resp_arrayBuffer = [37, 80, 68, 70]\<rparr>"

definition not_found_response :: response where
  "not_found_response =
     \<lparr>resp_ok = False, resp_status = 404, resp_statusText = ''Not Found'',
      resp_text = ''Error message'', resp_json = Inl (SyntaxError ''Unexpected token''),
      resp_arrayBuffer = []\<rparr>"

definition test_world :: "(request list \<Rightarrow> request \<Rightarrow> exn + response) \<Rightarrow> world" where
  "test_world srv = \<lparr>files = test_files, server = srv, requests = [], heap = []\<rparr>"

text \<open>The server of the tests: the job with id 123, in the given status.\<close>

definition serving :: "string \<Rightarrow> request list \<Rightarrow> request \<Rightarrow> exn + response" where
  "serving st earlier rq = Inr (ok_response (JObj [(''data'', test_data (JNum (Finite 123)) st)]))"

text \<open>A server whose id is not a number.\<close>

definition serving_text_id :: "request list \<Rightarrow> request \<Rightarrow> exn + response" where
  "serving_text_id earlier rq = Inr (ok_response (JObj [(''data'', test_data (JStr ''abc'') ''pending'')]))"

definition failing :: "request list \<Rightarrow> request \<Rightarrow> exn + response" where
  "failing earlier rq = Inr not_found_response"

text \<open>
  The object built from the test data, and a world in which the test client already
  holds handle \<open>0\<close> to it, in the given status.
\<close>

definition test_pdf :: "jsnum \<Rightarrow> string \<Rightarrow> client \<Rightarrow> pdf" where
  "test_pdf n st c =
     \<lparr>pdf_id = n, pdf_name = ''test.pdf'', pdf_status = st,
      pdf_downloadUrl = ''https://api.generatepdfs.com/pdfs/123/download/token'',
      pdf_createdAt = Date (Finite 1704110400000), pdf_client = c\<rparr>"

definition holding :: "string \<Rightarrow> world \<Rightarrow> world" where
  "holding st w = w\<lparr>heap := heap w @ [test_pdf (Finite 123) st test_client]\<rparr>"

text \<open>
  Image inputs: one without a name, one that passes the checks, one whose file does
  not exist; the same list without the one that passes; and an input whose path is
  the directory.
\<close>

definition test_images :: "image_input list" where
  "test_images =
     [\<lparr>img_name = [], img_path = ''/tmp/test.png'', img_mimeType = None\<rparr>,
      \<lparr>img_name = ''test.png'', img_path = ''/tmp/test.png'', img_mimeType = None\<rparr>,
      \<lparr>img_name = ''gone.png'', img_path = ''/non/existent/file.png'', img_mimeType = None\<rparr>]"

definition invalid_images :: "image_input list" where
  "invalid_images =
     [\<lparr>img_name = [], img_path = ''/tmp/test.png'', img_mimeType = None\<rparr>,
      \<lparr>img_name = ''gone.png'', img_path = ''/non/existent/file.png'', img_mimeType = None\<rparr>]"

definition folder_image :: image_input where
  "folder_image = \<lparr>img_name = ''folder'', img_path = ''/tmp'', img_mimeType = None\<rparr>"

text \<open>Data whose name is an object with an own property \<open>toString\<close>.\<close>

definition shadowed_name :: "(string \<times> jsval) list" where
  "shadowed_name =
     [(''id'', JNum (Finite 123)),
      (''name'', JObj [(''toString'', JNum (Finite 1))]),
      (''status'', JStr ''completed''),
      (''download_url'', JStr ''https://api.generatepdfs.com/pdfs/123/download/token''),
      (''created_at'', JStr ''2024-01-01T12:00:00.000000Z'')]"

section \<open>Properties of the embedding\<close>

subsection \<open>The validating factory and the shared response handling\<close>

lemma new_Date_throws: "new_Date rt v = Inl e \<Longrightarrow> to_string rt v = Inl e"
  by (cases v) (auto split: sum.splits if_splits)

lemma sequence_error:
  "sequence rs = Inl e \<Longrightarrow> Inl e \<in> set rs"
  by (induction rs rule: sequence.induct) (auto split: sum.splits)

lemma to_string_error: "to_string rt v = Inl e \<Longrightarrow> e = cannot_convert"
proof (induction rt v arbitrary: e rule: to_string.induct)
  case (6 rt xs)
  from "6.prems" obtain e' where
    "sequence (map (\<lambda>x. if x = JUndefined \<or> x = JNull then Inr [] else to_string rt x) xs) = Inl e'"
    and e': "e' = e"
    by (auto split: sum.splits)
  then have "Inl e \<in> set (map (\<lambda>x. if x = JUndefined \<or> x = JNull then Inr [] else to_string rt x) xs)"
    using sequence_error by blast
  then obtain x where x: "x \<in> set xs" "\<not> (x = JUndefined \<or> x = JNull)" "to_string rt x = Inl e"
    by (auto split: if_splits)
  from "6.IH" [OF x(1) x(2) x(3)] show ?case .
qed (auto split: if_splits)

lemma to_number_error: "to_number rt v = Inl e \<Longrightarrow> e = cannot_convert"
  by (cases v) (auto split: sum.splits if_splits dest: to_string_error simp del: to_string.simps)

lemma new_Date_error: "new_Date rt v = Inl e \<Longrightarrow> e = cannot_convert"
  by (auto dest: new_Date_throws to_string_error)

lemma primitive_to_string: "primitive v \<Longrightarrow> \<exists>s. to_string rt v = Inr s"
  by (cases v) simp_all

lemma primitive_to_number: "primitive v \<Longrightarrow> \<exists>n. to_number rt v = Inr n"
  by (cases v) simp_all

lemma primitive_new_Date: "primitive v \<Longrightarrow> \<exists>d. new_Date rt v = Inr d"
  by (cases v) simp_all

lemma created_at_message_throws:
  "new_Date rt (field data ''created_at'') = Inl e \<Longrightarrow> created_at_message rt data = Inl e"
  by (simp add: created_at_message_def new_Date_throws del: field.simps)

lemma created_at_message_error: "created_at_message rt data = Inl (created_at_error rt data)"
  by (simp add: created_at_message_def created_at_error_def split: sum.splits del: field.simps)

lemma try_created_at:
  "try_catch
     (case new_Date rt (field data ''created_at'') of
        Inl e \<Rightarrow> Inl e
      | Inr createdAt \<Rightarrow>
          if isNaN (getTime createdAt) then created_at_message rt data else Inr createdAt)
     (\<lambda>error. if instanceof_InvalidArgumentException error then Inl error
               else created_at_message rt data)
   = (case new_Date rt (field data ''created_at'') of
        Inl e \<Rightarrow> Inl e
      | Inr createdAt \<Rightarrow>
          if isNaN (getTime createdAt) then Inl (created_at_error rt data) else Inr createdAt)"
proof (cases "new_Date rt (field data ''created_at'')")
  case (Inl e)
  then show ?thesis
    by (simp add: try_catch_def created_at_message_throws del: field.simps)
next
  case (Inr d)
  show ?thesis
  proof (cases "to_string rt (field data ''created_at'')")
    case (Inl e)
    with Inr show ?thesis
      by (simp add: try_catch_def created_at_message_def created_at_error_def del: field.simps)
  next
    case (Inr raw)
    with \<open>new_Date rt (field data ''created_at'') = Inr d\<close> show ?thesis
      by (simp add: try_catch_def created_at_message_def created_at_error_def del: field.simps)
  qed
qed

lemma fromArray_cases:
  assumes "\<not> nullish data"
  shows "fromArray rt data c w =
     (if \<not> required_fields_truthy data
      then (Inl (InvalidArgumentException ''Invalid PDF data structure''), w)
      else if created_at_invalid rt data
      then (Inl (created_at_error rt data), w)
      else (case pdf_of_data rt data c of
              Inl e \<Rightarrow> (Inl e, w)
            | Inr p \<Rightarrow> (Inr (length (heap w)), w\<lparr>heap := heap w @ [p]\<rparr>)))"
  using assms
  unfolding fromArray_def try_created_at
  by (simp add: required_fields_truthy_def created_at_invalid_def pdf_of_data_def new_Pdf_def
        split: sum.splits del: field.simps)

lemma valid_or_invalid_or_throws:
  "created_at_valid rt data \<or> created_at_invalid rt data
     \<or> (\<exists>e. new_Date rt (field data ''created_at'') = Inl e)"
  by (cases "new_Date rt (field data ''created_at'')")
     (simp_all add: created_at_valid_def created_at_invalid_def del: field.simps)

lemma pdf_of_data_valid:
  "pdf_of_data rt data c = Inr p \<Longrightarrow> created_at_valid rt data \<or> created_at_invalid rt data"
  by (cases "new_Date rt (field data ''created_at'')")
     (simp_all add: pdf_of_data_def created_at_valid_def created_at_invalid_def del: field.simps)

lemma pdf_of_data_error: "pdf_of_data rt data c = Inl e \<Longrightarrow> e = cannot_convert"
  by (auto simp: pdf_of_data_def simp del: field.simps split: sum.splits
        dest: new_Date_error to_number_error to_string_error)

lemma pdf_of_data_primitive:
  "primitive_fields data \<Longrightarrow> \<exists>p. pdf_of_data rt data c = Inr p"
proof -
  assume p: "primitive_fields data"
  then obtain d n nm st url where
    "new_Date rt (field data ''created_at'') = Inr d"
    "to_number rt (field data ''id'') = Inr n"
    "to_string rt (field data ''name'') = Inr nm"
    "to_string rt (field data ''status'') = Inr st"
    "to_string rt (field data ''download_url'') = Inr url"
    unfolding primitive_fields_def
    using primitive_new_Date primitive_to_number primitive_to_string by metis
  then show ?thesis by (simp add: pdf_of_data_def del: field.simps)
qed

lemma truthy_not_nullish: "truthy v \<Longrightarrow> \<not> nullish v"
  by (cases v) simp_all

lemma handleResponse_cases:
  "handleResponse rt c response w =
     (if nullish response
      then (Inl (TypeError ''Cannot read properties of null or undefined''), w)
      else if \<not> truthy (field response ''data'')
      then (Inl (InvalidArgumentException ''Invalid API response: missing data''), w)
      else if \<not> required_fields_truthy (field response ''data'')
      then (Inl (InvalidArgumentException ''Invalid PDF data structure''), w)
      else if created_at_invalid rt (field response ''data'')
      then (Inl (created_at_error rt (field response ''data'')), w)
      else (case pdf_of_data rt (field response ''data'') c of
              Inl e \<Rightarrow> (Inl e, w)
            | Inr p \<Rightarrow> (Inr (length (heap w)), w\<lparr>heap := heap w @ [p]\<rparr>)))"
  by (simp add: handleResponse_def fromArray_cases truthy_not_nullish del: field.simps)

subsection \<open>Each request method calls fetch exactly once\<close>

lemma sent_simps [simp]:
  "requests (sent rq w) = requests w @ [rq]"
  "heap (sent rq w) = heap w"
  "files (sent rq w) = files w"
  "server (sent rq w) = server w"
  by (simp_all add: sent_def)

lemma makeRequest_eq:
  "makeRequest c endpoint body w =
     ((case server w (requests w) (post_request c endpoint body) of
         Inl e \<Rightarrow> Inl e
       | Inr r \<Rightarrow> if resp_ok r then resp_json r else Inl (api_error r)),
      sent (post_request c endpoint body) w)"
  by (simp add: makeRequest_def fetch_def post_request_def api_error_def sent_def Let_def
        split: sum.splits)

lemma makeGetRequest_eq:
  "makeGetRequest c endpoint w =
     ((case server w (requests w) (get_request c (baseUrl c @ endpoint)) of
         Inl e \<Rightarrow> Inl e
       | Inr r \<Rightarrow> if resp_ok r then resp_json r else Inl (api_error r)),
      sent (get_request c (baseUrl c @ endpoint)) w)"
  by (simp add: makeGetRequest_def fetch_def get_request_def api_error_def sent_def Let_def
        split: sum.splits)

lemma downloadPdf_eq:
  "downloadPdf c downloadUrl w =
     ((case server w (requests w) (get_request c downloadUrl) of
         Inl e \<Rightarrow> Inl e
       | Inr r \<Rightarrow> if resp_ok r then Inr (resp_arrayBuffer r)
                  else Inl (Error (''Failed to download PDF: '' @ resp_statusText r))),
      sent (get_request c downloadUrl) w)"
  by (simp add: downloadPdf_def fetch_def get_request_def sent_def split: sum.splits)

lemma handleResponse_frame:
  "requests (snd (handleResponse rt c response w)) = requests w"
  "files (snd (handleResponse rt c response w)) = files w"
  "server (snd (handleResponse rt c response w)) = server w"
  by (simp_all add: handleResponse_cases split: sum.splits del: field.simps)

lemma post_generate_requests:
  "requests (snd (post_generate rt c body w)) = requests w @ [post_request c ''/pdfs/generate'' body]"
  by (simp add: post_generate_def makeRequest_eq handleResponse_frame split: sum.splits)

lemma post_generate_failed:
  assumes "server w (requests w) (post_request c ''/pdfs/generate'' body) = Inr r" and "\<not> resp_ok r"
  shows "post_generate rt c body w
           = (Inl (api_error r), sent (post_request c ''/pdfs/generate'' body) w)"
  using assms by (simp add: post_generate_def makeRequest_eq)

subsection \<open>The public methods, step by step\<close>

lemma generateFromHtml_unfold:
  "generateFromHtml rt c htmlPath cssPath imgs w =
     (case html_css_data w htmlPath cssPath of
        Inl e \<Rightarrow> (Inl e, w)
      | Inr data1 \<Rightarrow>
          if imgs = [] then post_generate rt c (HtmlData data1) w
          else (case processImages w imgs of
                  Inl e \<Rightarrow> (Inl e, w)
                | Inr processed \<Rightarrow>
                    post_generate rt c (HtmlData (data1\<lparr>images := Some processed\<rparr>)) w))"
  by (simp add: generateFromHtml_def html_css_data_def post_generate_def Let_def
        split: sum.splits option.splits)

lemma generateFromUrl_unfold:
  "generateFromUrl rt c url w =
     (if url_parses rt url then post_generate rt c (UrlData url) w
      else (Inl (InvalidArgumentException (''Invalid URL: '' @ url)), w))"
  by (simp add: generateFromUrl_def try_catch_def post_generate_def)

lemma getPdf_unfold:
  "getPdf rt c id' w =
     (if le_zero id'
      then (Inl (InvalidArgumentException (''Invalid PDF ID: '' @ number_to_string rt id')), w)
      else (case server w (requests w)
                   (get_request c (baseUrl c @ ''/pdfs/'' @ number_to_string rt id')) of
              Inl e \<Rightarrow> (Inl e, sent (get_request c (baseUrl c @ ''/pdfs/'' @ number_to_string rt id')) w)
            | Inr r \<Rightarrow>
                if \<not> resp_ok r
                then (Inl (api_error r),
                      sent (get_request c (baseUrl c @ ''/pdfs/'' @ number_to_string rt id')) w)
                else (case resp_json r of
                        Inl e \<Rightarrow> (Inl e, sent (get_request c (baseUrl c @ ''/pdfs/'' @ number_to_string rt id')) w)
                      | Inr response \<Rightarrow>
                          handleResponse rt c response
                            (sent (get_request c (baseUrl c @ ''/pdfs/'' @ number_to_string rt id')) w))))"
  by (simp add: getPdf_def makeGetRequest_eq split: sum.splits)

lemma getPdf_requests:
  "\<not> le_zero id' \<Longrightarrow>
     requests (snd (getPdf rt c id' w))
       = requests w @ [get_request c (baseUrl c @ ''/pdfs/'' @ number_to_string rt id')]"
  by (simp add: getPdf_unfold handleResponse_frame split: sum.splits)

lemma le_zero_iff: "le_zero x \<longleftrightarrow> x = NegInfinity \<or> (\<exists>q. x = Finite q \<and> q \<le> 0)"
  by (cases x) simp_all

lemma number_to_string_nat:
  "int n \<le> MAX_SAFE_INTEGER \<Longrightarrow> number_to_string rt (Finite (of_nat n)) = decimal n"
  by (simp add: int_to_string_def)

lemma generateFromHtml_missing_html:
  "\<not> existsSync w htmlPath \<Longrightarrow>
     generateFromHtml rt c htmlPath cssPath imgs w
       = (Inl (InvalidArgumentException
                 (''HTML file not found or not readable: '' @ htmlPath)), w)"
  by (simp add: generateFromHtml_unfold html_css_data_def)

lemma generateFromHtml_missing_css:
  "files w htmlPath = Some (File hb) \<Longrightarrow> \<not> existsSync w cp \<Longrightarrow>
     generateFromHtml rt c htmlPath (Some cp) imgs w
       = (Inl (InvalidArgumentException
                 (''CSS file not found or not readable: '' @ cp)), w)"
  by (simp add: generateFromHtml_unfold html_css_data_def existsSync_def readFileSync_def)

lemma generateFromHtml_encodes:
  "files w htmlPath = Some (File hb) \<Longrightarrow> files w cp = Some (File cb) \<Longrightarrow>
     html_css_data w htmlPath (Some cp)
       = Inr \<lparr>html = base64 hb, css = Some (base64 cb), images = None\<rparr>
     \<and> html_css_data w htmlPath None = Inr \<lparr>html = base64 hb, css = None, images = None\<rparr>"
  by (simp add: html_css_data_def existsSync_def readFileSync_def)

subsection \<open>The image loop\<close>

lemma readFileSync_bytes: "readFileSync w p = Inr b \<Longrightarrow> file_bytes w p = b"
  by (auto simp: readFileSync_def file_bytes_def split: option.splits fs_entry.splits)

lemma readFileSync_total:
  "(\<exists>e. readFileSync w p = Inl e) \<or> (\<exists>b. files w p = Some (File b))"
proof (cases "files w p")
  case None
  then show ?thesis by (simp add: readFileSync_def)
next
  case (Some entry)
  then show ?thesis by (cases entry) (simp_all add: readFileSync_def)
qed

lemma loop_filter:
  "processImages_loop w imgs acc = processImages_loop w (filter (passes_checks w) imgs) acc"
  by (induction imgs arbitrary: acc) (auto simp: passes_checks_def split: sum.splits)

lemma loop_result:
  "processImages_loop w imgs acc = Inr ps \<Longrightarrow>
     ps = acc @ map (processed_of w) (filter (passes_checks w) imgs)"
proof (induction imgs arbitrary: acc)
  case Nil
  then show ?case by simp
next
  case (Cons img rest)
  show ?case
  proof (cases "passes_checks w img")
    case False
    with Cons.prems have "processImages_loop w rest acc = Inr ps"
      by (auto simp: passes_checks_def split: if_splits)
    from Cons.IH [OF this] False show ?thesis by simp
  next
    case True
    with Cons.prems obtain content where
      rd: "readFileSync w (img_path img) = Inr content" and
      rec: "processImages_loop w rest
              (acc @ [\<lparr>out_name = img_name img, out_content = base64 content,
                       out_mime_type = (case img_mimeType img of Some m \<Rightarrow> MimeString m
                                        | None \<Rightarrow> detectMimeType (img_path img))\<rparr>]) = Inr ps"
      by (auto simp: passes_checks_def split: sum.splits)
    from rd have "file_bytes w (img_path img) = content" by (rule readFileSync_bytes)
    with Cons.IH [OF rec] True show ?thesis by (simp add: processed_of_def)
  qed
qed

lemma loop_none_valid:
  "\<forall>i\<in>set imgs. \<not> passes_checks w i \<Longrightarrow> processImages_loop w imgs acc = Inr acc"
  by (induction imgs arbitrary: acc) (auto simp: passes_checks_def)

lemma loop_readable:
  "\<forall>i\<in>set imgs. passes_checks w i \<longrightarrow> (\<exists>b. files w (img_path i) = Some (File b)) \<Longrightarrow>
     processImages_loop w imgs acc = Inr (acc @ map (processed_of w) (filter (passes_checks w) imgs))"
proof (induction imgs arbitrary: acc)
  case Nil
  then show ?case by simp
next
  case (Cons img rest)
  then show ?case
    by (auto simp: passes_checks_def processed_of_def readFileSync_def file_bytes_def existsSync_def)
qed

subsection \<open>Returned handles\<close>

lemma handleResponse_handle:
  assumes "handleResponse rt c response w = (Inr h, w')"
  shows "truthy (field response ''data'')
     \<and> fromArray rt (field response ''data'') c w = (Inr h, w')
     \<and> required_fields_truthy (field response ''data'')
     \<and> created_at_valid rt (field response ''data'')
     \<and> h = length (heap w)
     \<and> (\<exists>p. pdf_of_data rt (field response ''data'') c = Inr p
             \<and> w' = w\<lparr>heap := heap w @ [p]\<rparr>)"
proof -
  let ?d = "field response ''data''"
  from assms have t: "truthy ?d"
    by (auto simp: handleResponse_def simp del: field.simps split: if_splits)
  with assms have fa: "fromArray rt ?d c w = (Inr h, w')"
    by (auto simp: handleResponse_def simp del: field.simps split: if_splits)
  from t have nn: "\<not> nullish ?d" by (rule truthy_not_nullish)
  from fa fromArray_cases [OF nn, of rt c w]
  have req: "required_fields_truthy ?d" and ninv: "\<not> created_at_invalid rt ?d"
    and built: "\<exists>p. pdf_of_data rt ?d c = Inr p \<and> h = length (heap w)
                  \<and> w' = w\<lparr>heap := heap w @ [p]\<rparr>"
    by (auto simp del: field.simps split: if_splits sum.splits)
  from built obtain p where "pdf_of_data rt ?d c = Inr p" by blast
  from pdf_of_data_valid [OF this] ninv have "created_at_valid rt ?d" by blast
  with t fa req built show ?thesis by blast
qed

lemma handleResponse_heap_error:
  "handleResponse rt c response w = (Inl e, w') \<Longrightarrow> w' = w"
  by (auto simp: handleResponse_cases simp del: field.simps split: if_splits sum.splits)

lemma getPdf_handle:
  assumes "getPdf rt c id' w = (Inr h, w')"
  shows "h = length (heap w) \<and> (\<exists>p. heap w' = heap w @ [p])"
proof -
  let ?rq = "get_request c (baseUrl c @ ''/pdfs/'' @ number_to_string rt id')"
  from assms obtain response where
    hr: "handleResponse rt c response (sent ?rq w) = (Inr h, w')"
    by (auto simp: getPdf_unfold split: sum.splits if_splits)
  from handleResponse_handle [OF hr] show ?thesis by auto
qed

lemma getPdf_heap_error:
  "getPdf rt c id' w = (Inl e, w') \<Longrightarrow> heap w' = heap w"
  by (auto simp: getPdf_unfold split: sum.splits if_splits dest: handleResponse_heap_error)

lemma getters_of_new:
  assumes "h = length (heap w)" and "heap w' = heap w @ [p]"
  shows "getId h w' = pdf_id p"
    and "getName h w' = pdf_name p"
    and "getStatus h w' = pdf_status p"
    and "getDownloadUrl h w' = pdf_downloadUrl p"
    and "getCreatedAt h w' = pdf_createdAt p"
  using assms
  by (simp_all add: getId_def getName_def getStatus_def getDownloadUrl_def getCreatedAt_def)

lemma pdf_of_data_fields:
  assumes "pdf_of_data rt d c = Inr p"
  shows "to_number rt (field d ''id'') = Inr (pdf_id p)"
    and "to_string rt (field d ''name'') = Inr (pdf_name p)"
    and "to_string rt (field d ''status'') = Inr (pdf_status p)"
    and "to_string rt (field d ''download_url'') = Inr (pdf_downloadUrl p)"
    and "new_Date rt (field d ''created_at'') = Inr (pdf_createdAt p)"
    and "pdf_client p = c"
  using assms
  by (auto simp: pdf_of_data_def simp del: field.simps split: sum.splits)

lemma typed_truthy_number:
  "is_number v \<Longrightarrow> truthy v \<Longrightarrow> to_number rt v = Inr n \<Longrightarrow> num_truthy n"
  by (cases v) auto

lemma typed_truthy_string:
  "is_string v \<Longrightarrow> truthy v \<Longrightarrow> to_string rt v = Inr s \<Longrightarrow> s \<noteq> []"
  by (cases v) auto

lemma handle_validated:
  assumes srv: "server w (requests w) rq = Inr r" and json: "resp_json r = Inr response"
    and hr: "handleResponse rt c response (sent rq w) = (Inr h, w')"
  shows "validated_handle rt c w h w'"
proof -
  let ?d = "field response ''data''"
  note hh = handleResponse_handle [OF hr]
  from hh obtain p where p: "pdf_of_data rt ?d c = Inr p"
    and w': "w' = (sent rq w)\<lparr>heap := heap (sent rq w) @ [p]\<rparr>" by blast
  from w' have rq: "last (requests w') = rq" by simp
  from srv json have d: "response_data w rq = ?d" by (simp add: response_data_def)
  from hh have t: "truthy ?d" and fa: "fromArray rt ?d c (sent rq w) = (Inr h, w')"
    and req: "required_fields_truthy ?d" and val: "created_at_valid rt ?d"
    and h: "h = length (heap (sent rq w))" by blast+
  from w' have hp: "heap w' = heap (sent rq w) @ [p]" by simp
  note g = getters_of_new [OF h hp]
  note f = pdf_of_data_fields [OF p]
  from val f(5) have date: "\<not> isNaN (getTime (pdf_createdAt p))"
    by (simp add: created_at_valid_def del: field.simps)
  from req date have hd: "handle_of_data rt ?d h w'"
    by (simp add: handle_of_data_def g f required_fields_truthy_def del: field.simps)
  have ty: "declared_types ?d \<longrightarrow> fields_truthy h w'"
  proof
    assume ty: "declared_types ?d"
    from ty req f(1) have a: "num_truthy (pdf_id p)"
      by (auto simp: declared_types_def required_fields_truthy_def simp del: field.simps
            intro: typed_truthy_number)
    from ty req f(2) have b: "pdf_name p \<noteq> []"
      by (auto simp: declared_types_def required_fields_truthy_def simp del: field.simps
            dest: typed_truthy_string)
    from ty req f(3) have c: "pdf_status p \<noteq> []"
      by (auto simp: declared_types_def required_fields_truthy_def simp del: field.simps
            dest: typed_truthy_string)
    from ty req f(4) have d: "pdf_downloadUrl p \<noteq> []"
      by (auto simp: declared_types_def required_fields_truthy_def simp del: field.simps
            dest: typed_truthy_string)
    from a b c d date show "fields_truthy h w'"
      by (simp add: fields_truthy_def g)
  qed
  from t fa hd ty show ?thesis
    by (simp add: validated_handle_def Let_def rq d del: field.simps)
qed

lemma post_generate_validated:
  assumes "post_generate rt c body w = (Inr h, w')"
  shows "validated_handle rt c w h w'"
proof -
  let ?rq = "post_request c ''/pdfs/generate'' body"
  from assms obtain r response where
    "server w (requests w) ?rq = Inr r" and "resp_json r = Inr response" and
    "handleResponse rt c response (sent ?rq w) = (Inr h, w')"
    by (auto simp: post_generate_def makeRequest_eq split: sum.splits if_splits)
  then show ?thesis by (rule handle_validated)
qed

lemma getPdf_validated:
  assumes "getPdf rt c id' w = (Inr h, w')"
  shows "validated_handle rt c w h w'"
proof -
  let ?rq = "get_request c (baseUrl c @ ''/pdfs/'' @ number_to_string rt id')"
  from assms obtain r response where
    "server w (requests w) ?rq = Inr r" and "resp_json r = Inr response" and
    "handleResponse rt c response (sent ?rq w) = (Inr h, w')"
    by (auto simp: getPdf_unfold split: sum.splits if_splits)
  then show ?thesis by (rule handle_validated)
qed

subsection \<open>Text inside a message\<close>

lemma starts_with_append: "starts_with s (s @ t)"
  by (induction s) simp_all

lemma contains_self_append: "contains s (s @ t)"
proof (cases "s @ t")
  case Nil
  then show ?thesis by simp
next
  case (Cons y ys)
  have "starts_with s (s @ t)" by (rule starts_with_append)
  with Cons show ?thesis by simp
qed

lemma contains_append: "contains s (a @ s @ t)"
proof (induction a)
  case Nil
  show ?case using contains_self_append [of s t] by simp
next
  case (Cons x xs)
  then show ?case by simp
qed

lemma contains_suffix: "contains s (a @ s)"
  using contains_append [of s a "[]"] by simp

subsection \<open>Facts about the example world\<close>

lemma test_world_simps [simp]:
  "files (test_world srv) = test_files"
  "server (test_world srv) = srv"
  "requests (test_world srv) = []"
  "heap (test_world srv) = []"
  by (simp_all add: test_world_def)

lemma test_client_simps [simp]:
  "apiToken test_client = ''test-api-token''"
  "baseUrl test_client = ''https://api.generatepdfs.com''"
  by (simp_all add: test_client_def connect_def BASE_URL_def)

lemma test_files_simps [simp]:
  "test_files ''/tmp'' = Some (Unreadable ''EISDIR: illegal operation on a directory, read'')"
  "test_files ''/tmp/test.html'' = Some (File [60, 112, 62])"
  "test_files ''/tmp/test.css'' = Some (File [112, 123, 125])"
  "test_files ''/tmp/test.png'' = Some (File [137, 80, 78, 71])"
  "test_files ''/tmp/photo.constructor'' = Some (File [137, 80, 78, 71])"
  "test_files ''/non/existent/file.html'' = None"
  "test_files ''/non/existent/file.css'' = None"
  "test_files ''/non/existent/file.png'' = None"
  by (simp_all add: test_files_def)

lemma floor_minus_one_rat: "\<lfloor>- 1 :: rat\<rfloor> = - 1"
  using floor_of_int [of "- 1", where ?'a = rat] by simp

lemma three_halves: "(3 / 2 :: rat) \<noteq> rat_of_int \<lfloor>3 / 2 :: rat\<rfloor>"
  by code_simp

lemma number_123: "number_to_string rt (Finite 123) = ''123''"
  by (simp add: int_to_string_def decimal.simps MAX_SAFE_INTEGER_def)

lemma base64_examples:
  "base64 [60, 112, 62] = ''PHA+''"
  "base64 [112, 123, 125] = ''cHt9''"
  "base64 [137, 80, 78, 71] = ''iVBORw==''"
  by (simp_all add: base64_char_def base64_alphabet_def)

lemma detectMimeType_examples:
  "detectMimeType ''/tmp/test.png'' = MimeString ''image/png''"
  "detectMimeType ''/tmp/Photo.JPG'' = MimeString ''image/jpeg''"
  "detectMimeType ''/tmp/notes.txt'' = MimeString ''application/octet-stream''"
  "detectMimeType ''/tmp/photo.constructor'' = Inherited ''constructor''"
  by (simp_all add: detectMimeType_def pop_def toLowerCase_def toLowerCase_char_def
        mimeTypes_def Object_prototype_keys_def)

lemma html_css_data_test:
  "html_css_data (test_world srv) ''/tmp/test.html'' None
     = Inr \<lparr>html = ''PHA+'', css = None, images = None\<rparr>"
  "html_css_data (test_world srv) ''/tmp/test.html'' (Some ''/tmp/test.css'')
     = Inr \<lparr>html = ''PHA+'', css = Some ''cHt9'', images = None\<rparr>"
  by (simp_all add: html_css_data_def existsSync_def readFileSync_def base64_char_def
        base64_alphabet_def)

lemma test_pdf_simps [simp]:
  "pdf_id (test_pdf n st c) = n"
  "pdf_name (test_pdf n st c) = ''test.pdf''"
  "pdf_status (test_pdf n st c) = st"
  "pdf_downloadUrl (test_pdf n st c) = ''https://api.generatepdfs.com/pdfs/123/download/token''"
  "pdf_createdAt (test_pdf n st c) = Date (Finite 1704110400000)"
  "pdf_client (test_pdf n st c) = c"
  by (simp_all add: test_pdf_def)

lemma pdf_of_test_data:
  "to_number test_runtime ident = Inr n \<Longrightarrow>
     pdf_of_data test_runtime (test_data ident st) c = Inr (test_pdf n st c)"
  by (simp add: pdf_of_data_def test_data_def test_fields_def test_runtime_def test_pdf_def)

lemma test_data_checked:
  "truthy ident \<Longrightarrow> st \<noteq> [] \<Longrightarrow>
     required_fields_truthy (test_data ident st)
     \<and> created_at_valid test_runtime (test_data ident st)
     \<and> \<not> created_at_invalid test_runtime (test_data ident st)"
  by (simp add: required_fields_truthy_def created_at_valid_def created_at_invalid_def
        test_data_def test_fields_def test_runtime_def)

lemma test_response_handled:
  assumes "truthy ident" and "st \<noteq> []" and "to_number test_runtime ident = Inr n"
  shows "handleResponse test_runtime c (JObj [(''data'', test_data ident st)]) w
     = (Inr (length (heap w)), w\<lparr>heap := heap w @ [test_pdf n st c]\<rparr>)"
proof -
  have d: "field (JObj [(''data'', test_data ident st)]) ''data'' = test_data ident st" by simp
  have t: "truthy (test_data ident st)" by (simp add: test_data_def)
  from test_data_checked [OF assms(1,2)] pdf_of_test_data [OF assms(3), of st c] t
  show ?thesis
    unfolding handleResponse_cases d by simp
qed

lemma post_generate_test:
  assumes "srv [] (post_request test_client ''/pdfs/generate'' body)
             = Inr (ok_response (JObj [(''data'', test_data ident st)]))"
    and "truthy ident" and "st \<noteq> []" and "to_number test_runtime ident = Inr n"
  shows "post_generate test_runtime test_client body (test_world srv)
     = (Inr 0, (sent (post_request test_client ''/pdfs/generate'' body) (test_world srv))
                 \<lparr>heap := [test_pdf n st test_client]\<rparr>)"
  using assms
  by (simp add: post_generate_def makeRequest_eq ok_response_def test_response_handled)

lemma getPdf_test:
  assumes "srv [] (get_request test_client (''https://api.generatepdfs.com/pdfs/'' @ number_to_string test_runtime id'))
             = Inr (ok_response (JObj [(''data'', test_data ident st)]))"
    and "truthy ident" and "st \<noteq> []" and "to_number test_runtime ident = Inr n"
    and "\<not> le_zero id'"
  shows "getPdf test_runtime test_client id' (test_world srv)
     = (Inr 0, (sent (get_request test_client
                        (''https://api.generatepdfs.com/pdfs/'' @ number_to_string test_runtime id'))
                  (test_world srv))
                 \<lparr>heap := [test_pdf n st test_client]\<rparr>)"
  using assms
  by (simp add: getPdf_unfold ok_response_def test_response_handled del: number_to_string.simps)

lemma holding_heap [simp]:
  "heap (holding st (test_world srv)) = [test_pdf (Finite 123) st test_client]"
  by (simp add: holding_def)

lemma holding_status [simp]: "getStatus 0 (holding st (test_world srv)) = st"
  by (simp add: getStatus_def)

lemma holding_url [simp]:
  "getDownloadUrl 0 (holding st (test_world srv))
     = ''https://api.generatepdfs.com/pdfs/123/download/token''"
  by (simp add: getDownloadUrl_def)

lemma holding_id [simp]: "getId 0 (holding st (test_world srv)) = Finite 123"
  by (simp add: getId_def)

lemma holding_requests [simp]: "requests (holding st (test_world srv)) = []"
  by (simp add: holding_def test_world_def)

lemma holding_server [simp]: "server (holding st (test_world srv)) = srv"
  by (simp add: holding_def test_world_def)

lemma api_error_not_found:
  "api_error not_found_response = Error ''API request failed: 404 Not Found - Error message''"
  by (simp add: api_error_def not_found_response_def decimal.simps)

section \<open>The claims\<close>

subsection \<open>C1: Pdf.fromArray validates the raw data\<close>

text \<open>
  Claim C1, as amended. For every raw data object and client, \<^verbatim>\<open>Pdf.fromArray\<close>
  returns a handle exactly when the five required fields (\<open>id\<close>, \<open>name\<close>, \<open>status\<close>,
  \<open>download_url\<close>, \<open>created_at\<close>) are all truthy, \<^verbatim>\<open>new Date(created_at)\<close> returns a valid
  date (for a string \<open>created_at\<close>: the string parses) and the coercions
  \<^verbatim>\<open>Number(id)\<close>, \<^verbatim>\<open>String(name)\<close>, \<^verbatim>\<open>String(status)\<close>, \<^verbatim>\<open>String(download_url)\<close> return;
  the handle is then a new object holding the coerced fields. If a required field is
  missing or falsy it throws \<^verbatim>\<open>InvalidArgumentException("Invalid PDF data structure")\<close>.
  If all are truthy and the date is invalid it throws \<^verbatim>\<open>InvalidArgumentException\<close> with
  the message \<open>Invalid created_at format: \<close> followed by the raw value, once. Whenever
  it throws, the world is unchanged and the exception is one of these two or the
  \<^verbatim>\<open>TypeError\<close> of a value that cannot be converted to a primitive. When the five fields
  are primitives, as the declared type says, no conversion throws, and the method
  returns a handle exactly when the fields are truthy and the date is valid, and
  throws the message with the raw value in every other case of truthy fields.
\<close>

theorem fromArray_spec:
  "((\<exists>h w'. fromArray rt (JObj kvs) c w = (Inr h, w'))
      \<longleftrightarrow> required_fields_truthy (JObj kvs) \<and> created_at_valid rt (JObj kvs)
          \<and> (\<exists>p. pdf_of_data rt (JObj kvs) c = Inr p))
   \<and> (\<forall>p. required_fields_truthy (JObj kvs) \<and> created_at_valid rt (JObj kvs)
            \<and> pdf_of_data rt (JObj kvs) c = Inr p \<longrightarrow>
        fromArray rt (JObj kvs) c w = (Inr (length (heap w)), w\<lparr>heap := heap w @ [p]\<rparr>))
   \<and> (\<not> required_fields_truthy (JObj kvs) \<longrightarrow>
        fromArray rt (JObj kvs) c w
          = (Inl (InvalidArgumentException ''Invalid PDF data structure''), w))
   \<and> (\<forall>raw. required_fields_truthy (JObj kvs) \<and> created_at_invalid rt (JObj kvs)
              \<and> to_string rt (field (JObj kvs) ''created_at'') = Inr raw \<longrightarrow>
        fromArray rt (JObj kvs) c w
          = (Inl (InvalidArgumentException (''Invalid created_at format: '' @ raw)), w))
   \<and> (\<forall>e w'. fromArray rt (JObj kvs) c w = (Inl e, w') \<longrightarrow>
         w' = w
         \<and> (e = InvalidArgumentException ''Invalid PDF data structure''
              \<or> (\<exists>raw. to_string rt (field (JObj kvs) ''created_at'') = Inr raw
                     \<and> e = InvalidArgumentException (''Invalid created_at format: '' @ raw))
              \<or> e = cannot_convert))
   \<and> (primitive_fields (JObj kvs) \<longrightarrow>
         ((\<exists>h w'. fromArray rt (JObj kvs) c w = (Inr h, w'))
            \<longleftrightarrow> required_fields_truthy (JObj kvs) \<and> created_at_valid rt (JObj kvs))
         \<and> (required_fields_truthy (JObj kvs) \<and> \<not> created_at_valid rt (JObj kvs) \<longrightarrow>
              (\<exists>raw. to_string rt (field (JObj kvs) ''created_at'') = Inr raw
                 \<and> fromArray rt (JObj kvs) c w
                     = (Inl (InvalidArgumentException (''Invalid created_at format: '' @ raw)),
                        w))))
   \<and> (\<forall>s. field (JObj kvs) ''created_at'' = JStr s \<longrightarrow>
         created_at_valid rt (JObj kvs) = (\<not> isNaN (date_parse rt s)))"
proof -
  let ?d = "JObj kvs"
  let ?ca = "field ?d ''created_at''"
  have nn: "\<not> nullish ?d" by simp
  note eq = fromArray_cases [OF nn, of rt c w]
  have excl: "\<not> (created_at_valid rt ?d \<and> created_at_invalid rt ?d)"
    by (cases "new_Date rt ?ca")
       (simp_all add: created_at_valid_def created_at_invalid_def del: field.simps)
  have success: "(\<exists>h w'. fromArray rt ?d c w = (Inr h, w'))
      \<longleftrightarrow> required_fields_truthy ?d \<and> created_at_valid rt ?d
          \<and> (\<exists>p. pdf_of_data rt ?d c = Inr p)"
    using excl pdf_of_data_valid [of rt ?d c]
    by (auto simp: eq simp del: field.simps split: sum.splits)
  have built: "\<forall>p. required_fields_truthy ?d \<and> created_at_valid rt ?d
            \<and> pdf_of_data rt ?d c = Inr p \<longrightarrow>
        fromArray rt ?d c w = (Inr (length (heap w)), w\<lparr>heap := heap w @ [p]\<rparr>)"
    using excl by (auto simp: eq simp del: field.simps)
  have missing: "\<not> required_fields_truthy ?d \<longrightarrow>
        fromArray rt ?d c w = (Inl (InvalidArgumentException ''Invalid PDF data structure''), w)"
    by (simp add: eq del: field.simps)
  have undated: "\<forall>raw. required_fields_truthy ?d \<and> created_at_invalid rt ?d
              \<and> to_string rt ?ca = Inr raw \<longrightarrow>
        fromArray rt ?d c w
          = (Inl (InvalidArgumentException (''Invalid created_at format: '' @ raw)), w)"
    by (simp add: eq created_at_error_def del: field.simps)
  have errors: "\<forall>e w'. fromArray rt ?d c w = (Inl e, w') \<longrightarrow>
         w' = w
         \<and> (e = InvalidArgumentException ''Invalid PDF data structure''
              \<or> (\<exists>raw. to_string rt ?ca = Inr raw
                     \<and> e = InvalidArgumentException (''Invalid created_at format: '' @ raw))
              \<or> e = cannot_convert)"
  proof (intro allI impI)
    fix e w'
    assume f: "fromArray rt ?d c w = (Inl e, w')"
    show "w' = w
         \<and> (e = InvalidArgumentException ''Invalid PDF data structure''
              \<or> (\<exists>raw. to_string rt ?ca = Inr raw
                     \<and> e = InvalidArgumentException (''Invalid created_at format: '' @ raw))
              \<or> e = cannot_convert)"
    proof (cases "to_string rt ?ca")
      case (Inl e')
      then have "e' = cannot_convert" by (rule to_string_error)
      with Inl f show ?thesis
        by (auto simp: eq created_at_error_def simp del: field.simps
              split: if_splits sum.splits dest: pdf_of_data_error)
    next
      case (Inr raw)
      with f show ?thesis
        by (auto simp: eq created_at_error_def simp del: field.simps
              split: if_splits sum.splits dest: pdf_of_data_error)
    qed
  qed
  have prim: "primitive_fields ?d \<longrightarrow>
         ((\<exists>h w'. fromArray rt ?d c w = (Inr h, w'))
            \<longleftrightarrow> required_fields_truthy ?d \<and> created_at_valid rt ?d)
         \<and> (required_fields_truthy ?d \<and> \<not> created_at_valid rt ?d \<longrightarrow>
              (\<exists>raw. to_string rt ?ca = Inr raw
                 \<and> fromArray rt ?d c w
                     = (Inl (InvalidArgumentException (''Invalid created_at format: '' @ raw)),
                        w)))"
  proof
    assume p: "primitive_fields ?d"
    from pdf_of_data_primitive [OF p] obtain pd where pd: "pdf_of_data rt ?d c = Inr pd"
      by blast
    from p have "primitive ?ca" by (simp add: primitive_fields_def del: field.simps)
    then obtain raw where raw: "to_string rt ?ca = Inr raw"
      using primitive_to_string by blast
    from pdf_of_data_valid [OF pd] have vi: "created_at_valid rt ?d \<or> created_at_invalid rt ?d" .
    have one: "(\<exists>h w'. fromArray rt ?d c w = (Inr h, w'))
            \<longleftrightarrow> required_fields_truthy ?d \<and> created_at_valid rt ?d"
      using success pd by blast
    have two: "required_fields_truthy ?d \<and> \<not> created_at_valid rt ?d \<longrightarrow>
              (\<exists>raw. to_string rt ?ca = Inr raw
                 \<and> fromArray rt ?d c w
                     = (Inl (InvalidArgumentException (''Invalid created_at format: '' @ raw)),
                        w))"
      using undated raw vi by blast
    from one two show "((\<exists>h w'. fromArray rt ?d c w = (Inr h, w'))
            \<longleftrightarrow> required_fields_truthy ?d \<and> created_at_valid rt ?d)
         \<and> (required_fields_truthy ?d \<and> \<not> created_at_valid rt ?d \<longrightarrow>
              (\<exists>raw. to_string rt ?ca = Inr raw
                 \<and> fromArray rt ?d c w
                     = (Inl (InvalidArgumentException (''Invalid created_at format: '' @ raw)),
                        w)))" by blast
  qed
  have parsed: "\<forall>s. ?ca = JStr s \<longrightarrow>
         created_at_valid rt ?d = (\<not> isNaN (date_parse rt s))"
    by (simp add: created_at_valid_def del: field.simps)
  from success built missing undated errors prim parsed show ?thesis by blast
qed

text \<open>
  On the data of the test suite: the complete object yields handle \<open>0\<close> with the
  coerced fields, the object with only an \<open>id\<close> and the one with an unparseable date
  are refused with the two messages.
\<close>

theorem fromArray_spec_witness:
  "fst (fromArray test_runtime (JObj (test_fields (JNum (Finite 123)) ''completed'')) test_client
          (test_world (serving ''completed''))) = Inr 0
   \<and> heap (snd (fromArray test_runtime (JObj (test_fields (JNum (Finite 123)) ''completed''))
                  test_client (test_world (serving ''completed''))))
       = [\<lparr>pdf_id = Finite 123, pdf_name = ''test.pdf'', pdf_status = ''completed'',
           pdf_downloadUrl = ''https://api.generatepdfs.com/pdfs/123/download/token'',
           pdf_createdAt = Date (Finite 1704110400000), pdf_client = test_client\<rparr>]
   \<and> fromArray test_runtime (JObj [(''id'', JNum (Finite 123))]) test_client
          (test_world (serving ''completed''))
       = (Inl (InvalidArgumentException ''Invalid PDF data structure''),
          test_world (serving ''completed''))
   \<and> fromArray test_runtime
          (JObj [(''id'', JNum (Finite 123)), (''name'', JStr ''test.pdf''),
                 (''status'', JStr ''completed''), (''download_url'', JStr ''https://x''),
                 (''created_at'', JStr ''invalid-date-format'')])
          test_client (test_world (serving ''completed''))
       = (Inl (InvalidArgumentException ''Invalid created_at format: invalid-date-format''),
          test_world (serving ''completed''))"
proof -
  let ?w = "test_world (serving ''completed'')"
  let ?good = "test_fields (JNum (Finite 123)) ''completed''"
  let ?short = "[(''id'', JNum (Finite 123))]"
  let ?undated = "[(''id'', JNum (Finite 123)), (''name'', JStr ''test.pdf''),
                 (''status'', JStr ''completed''), (''download_url'', JStr ''https://x''),
                 (''created_at'', JStr ''invalid-date-format'')]"
  have g: "required_fields_truthy (JObj ?good) \<and> created_at_valid test_runtime (JObj ?good)
           \<and> pdf_of_data test_runtime (JObj ?good) test_client
               = Inr (test_pdf (Finite 123) ''completed'' test_client)"
    using test_data_checked [of "JNum (Finite 123)" "''completed''"]
      pdf_of_test_data [of "JNum (Finite 123)" "Finite 123" "''completed''" test_client]
    by (simp add: test_data_def)
  have s: "\<not> required_fields_truthy (JObj ?short)"
    by (simp add: required_fields_truthy_def)
  have u: "required_fields_truthy (JObj ?undated) \<and> created_at_invalid test_runtime (JObj ?undated)
           \<and> to_string test_runtime (field (JObj ?undated) ''created_at'')
               = Inr ''invalid-date-format''"
    by (simp add: required_fields_truthy_def created_at_invalid_def test_runtime_def)
  from fromArray_spec [of test_runtime ?good test_client ?w] g
  have "fromArray test_runtime (JObj ?good) test_client ?w
          = (Inr (length (heap ?w)),
             ?w\<lparr>heap := heap ?w @ [test_pdf (Finite 123) ''completed'' test_client]\<rparr>)"
    by blast
  then have r1: "fst (fromArray test_runtime (JObj ?good) test_client ?w) = Inr 0"
    and r2: "heap (snd (fromArray test_runtime (JObj ?good) test_client ?w))
       = [\<lparr>pdf_id = Finite 123, pdf_name = ''test.pdf'', pdf_status = ''completed'',
           pdf_downloadUrl = ''https://api.generatepdfs.com/pdfs/123/download/token'',
           pdf_createdAt = Date (Finite 1704110400000), pdf_client = test_client\<rparr>]"
    by (simp_all add: test_pdf_def)
  from fromArray_spec [of test_runtime ?short test_client ?w] s
  have r3: "fromArray test_runtime (JObj ?short) test_client ?w
          = (Inl (InvalidArgumentException ''Invalid PDF data structure''), ?w)"
    by blast
  from fromArray_spec [of test_runtime ?undated test_client ?w] u
  have "fromArray test_runtime (JObj ?undated) test_client ?w
          = (Inl (InvalidArgumentException
                (''Invalid created_at format: '' @ ''invalid-date-format'')), ?w)"
    by blast
  then have r4: "fromArray test_runtime (JObj ?undated) test_client ?w
          = (Inl (InvalidArgumentException ''Invalid created_at format: invalid-date-format''), ?w)"
    by simp
  from r1 r2 r3 r4 show ?thesis by blast
qed

text \<open>
  The claim as stated, that truthy fields and a parseable date are enough, fails
  for data whose name is the object \<open>{"toString": 1}\<close>: the five fields are truthy and
  the date is valid, yet \<^verbatim>\<open>String(data.name)\<close> finds the own property in place of the
  inherited method and throws a \<^verbatim>\<open>TypeError\<close>, so no handle is returned.
\<close>

theorem fromArray_spec_counterexample:
  "required_fields_truthy (JObj shadowed_name)
   \<and> created_at_valid test_runtime (JObj shadowed_name)
   \<and> fromArray test_runtime (JObj shadowed_name) test_client (test_world (serving ''completed''))
       = (Inl (TypeError ''Cannot convert object to primitive value''),
          test_world (serving ''completed''))"
  by (simp add: fromArray_def try_catch_def required_fields_truthy_def created_at_valid_def
        shadowed_name_def test_runtime_def shadows_toString_def cannot_convert_def)

subsection \<open>C2: readiness and download\<close>

text \<open>
  Claim C2. For every handle and every status string, \<^verbatim>\<open>isReady()\<close> is true if and
  only if the status is exactly \<open>completed\<close>. \<^verbatim>\<open>download()\<close> on a handle whose status is
  anything else throws \<^verbatim>\<open>RuntimeException\<close> with the message
  \<open>PDF is not ready yet. Current status: \<close> followed by the status and leaves the world,
  and so the log of requests, as it was; on a ready handle it is the client's
  \<^verbatim>\<open>downloadPdf\<close> on the handle's own download URL, which sends one GET to that URL.
\<close>

theorem isReady_download:
  "isReady h w = (getStatus h w = ''completed'')
   \<and> (getStatus h w \<noteq> ''completed'' \<longrightarrow>
        download h w
          = (Inl (RuntimeException (''PDF is not ready yet. Current status: '' @ getStatus h w)), w))
   \<and> (getStatus h w = ''completed'' \<longrightarrow>
        download h w = downloadPdf (pdf_client (heap w ! h)) (getDownloadUrl h w) w
        \<and> requests (snd (download h w))
            = requests w @ [get_request (pdf_client (heap w ! h)) (getDownloadUrl h w)])"
  by (simp add: isReady_def getStatus_def download_def getDownloadUrl_def Let_def downloadPdf_eq)

text \<open>
  A handle in status \<open>completed\<close> is ready and downloads the served bytes with one
  request; \<open>Completed\<close> and \<open>pending\<close> are not ready, and the pending handle's download
  fails with the message and without a request.
\<close>

theorem isReady_download_witness:
  "isReady 0 (holding ''completed'' (test_world (serving ''completed'')))
   \<and> \<not> isReady 0 (holding ''Completed'' (test_world (serving ''completed'')))
   \<and> \<not> isReady 0 (holding ''pending'' (test_world (serving ''pending'')))
   \<and> download 0 (holding ''pending'' (test_world (serving ''pending'')))
       = (Inl (RuntimeException ''PDF is not ready yet. Current status: pending''),
          holding ''pending'' (test_world (serving ''pending'')))
   \<and> fst (download 0 (holding ''completed'' (test_world (serving ''completed''))))
       = Inr [37, 80, 68, 70]
   \<and> requests (snd (download 0 (holding ''completed'' (test_world (serving ''completed'')))))
       = [get_request test_client ''https://api.generatepdfs.com/pdfs/123/download/token'']"
proof -
  let ?done = "holding ''completed'' (test_world (serving ''completed''))"
  let ?caps = "holding ''Completed'' (test_world (serving ''completed''))"
  let ?wait = "holding ''pending'' (test_world (serving ''pending''))"
  have s1: "getStatus 0 ?done = ''completed''" and s2: "getStatus 0 ?caps \<noteq> ''completed''"
    and s3: "getStatus 0 ?wait \<noteq> ''completed''" by simp_all
  from isReady_download [of 0 ?done] s1 have r1: "isReady 0 ?done" by blast
  from isReady_download [of 0 ?caps] s2 have r2: "\<not> isReady 0 ?caps" by blast
  from isReady_download [of 0 ?wait] s3 have r3: "\<not> isReady 0 ?wait" by blast
  from isReady_download [of 0 ?wait] s3
  have "download 0 ?wait
          = (Inl (RuntimeException (''PDF is not ready yet. Current status: '' @ getStatus 0 ?wait)),
             ?wait)" by blast
  then have r4: "download 0 ?wait
          = (Inl (RuntimeException ''PDF is not ready yet. Current status: pending''), ?wait)"
    by simp
  from isReady_download [of 0 ?done] s1
  have "download 0 ?done = downloadPdf (pdf_client (heap ?done ! 0)) (getDownloadUrl 0 ?done) ?done"
    by blast
  then have r5: "fst (download 0 ?done) = Inr [37, 80, 68, 70]"
    by (simp add: downloadPdf_eq serving_def ok_response_def)
  from isReady_download [of 0 ?done] s1
  have "requests (snd (download 0 ?done))
          = requests ?done @ [get_request (pdf_client (heap ?done ! 0)) (getDownloadUrl 0 ?done)]"
    by blast
  then have r6: "requests (snd (download 0 ?done))
          = [get_request test_client ''https://api.generatepdfs.com/pdfs/123/download/token'']"
    by simp
  from r1 r2 r3 r4 r5 r6 show ?thesis by blast
qed

subsection \<open>C3: the image helper\<close>

text \<open>
  Claim C3 says that \<^verbatim>\<open>#processImages\<close> skips exactly the entries with an empty name,
  an empty path or a path that is not an existing readable file, and resolves the MIME
  type of every other entry as the override, else through the extension table, else as
  \<open>application/octet-stream\<close>. The code differs on two inputs. A file whose extension is
  \<open>constructor\<close> finds the member the table inherits from \<^verbatim>\<open>Object.prototype\<close>, which
  is not nullish, so \<^verbatim>\<open>??\<close> never reaches the default and the MIME type is not a
  string at all. An entry whose path exists and cannot be read (here a directory) is
  not skipped: \<^verbatim>\<open>existsSync\<close> is true, \<^verbatim>\<open>readFileSync\<close> throws, and the helper ends
  with that error, dropping the entries already processed.
\<close>

theorem processImages_inherited_mime:
  "processImages (test_world (serving ''pending''))
     [\<lparr>img_name = ''photo'', img_path = ''/tmp/photo.constructor'', img_mimeType = None\<rparr>]
     = Inr [\<lparr>out_name = ''photo'', out_content = ''iVBORw=='',
             out_mime_type = Inherited ''constructor''\<rparr>]
   \<and> processImages (test_world (serving ''pending''))
     [\<lparr>img_name = ''test.png'', img_path = ''/tmp/test.png'', img_mimeType = None\<rparr>,
      \<lparr>img_name = ''folder'', img_path = ''/tmp'', img_mimeType = None\<rparr>]
     = Inl (Error ''EISDIR: illegal operation on a directory, read'')"
  by (simp add: processImages_def existsSync_def readFileSync_def base64_char_def
        base64_alphabet_def detectMimeType_examples)

text \<open>
  What the loop does otherwise, for the record: it behaves as on the list of the
  entries that pass its checks (\<open>loop_filter\<close>); whenever it returns, it returns one
  triple per such entry, in order (\<open>loop_result\<close>); and it returns whenever each of
  them is a readable file (\<open>loop_readable\<close>).
\<close>

subsection \<open>C4: an image that cannot be read aborts the request\<close>

text \<open>
  Claim C4 says that in a call of \<^verbatim>\<open>generateFromHtml\<close> with images, the images that
  fail local validation are dropped silently without aborting the request, and that a
  call whose images are all invalid still goes on, with the \<open>images\<close> field omitted or
  empty. In the specification an image fails validation when its name or path is
  empty or its path is unreadable. The code tests existence only, so an image whose
  path exists and cannot be read (here a directory) fails validation and is not
  dropped: \<^verbatim>\<open>readFileSync\<close> throws, the error leaves \<^verbatim>\<open>generateFromHtml\<close>, and no request
  is sent, whether the image is the only one or stands beside a good one.
\<close>

theorem generateFromHtml_unreadable_image:
  "fails_local_validation (test_world (serving ''pending'')) folder_image
   \<and> generateFromHtml test_runtime test_client ''/tmp/test.html'' None [folder_image]
        (test_world (serving ''pending''))
     = (Inl (Error ''EISDIR: illegal operation on a directory, read''),
        test_world (serving ''pending''))
   \<and> generateFromHtml test_runtime test_client ''/tmp/test.html'' None
        [\<lparr>img_name = ''test.png'', img_path = ''/tmp/test.png'', img_mimeType = None\<rparr>,
         folder_image]
        (test_world (serving ''pending''))
     = (Inl (Error ''EISDIR: illegal operation on a directory, read''),
        test_world (serving ''pending''))"
  by (simp add: fails_local_validation_def readable_def folder_image_def
        generateFromHtml_unfold html_css_data_test processImages_def existsSync_def
        readFileSync_def)

text \<open>
  For the images that fail the code's own checks (empty name, empty path, path that
  does not exist) the claim holds: the helper behaves as if they had not been
  supplied, what it returns is the \<open>images\<close> field of the posted payload, and when no
  image passes the checks the payload is posted with \<open>images\<close> empty. The helper fails
  only on an image that passes the checks and cannot be read.
\<close>

lemma checked_images_attached:
  assumes "html_css_data w htmlPath cssPath = Inr data1" and "imgs \<noteq> []"
  shows "processImages w imgs = processImages w (filter (passes_checks w) imgs)
     \<and> (\<forall>processed. processImages w imgs = Inr processed \<longrightarrow>
           processed = map (processed_of w) (filter (passes_checks w) imgs)
           \<and> generateFromHtml rt c htmlPath cssPath imgs w
               = post_generate rt c (HtmlData (data1\<lparr>images := Some processed\<rparr>)) w)
     \<and> ((\<forall>i\<in>set imgs. \<not> passes_checks w i) \<longrightarrow>
           processImages w imgs = Inr []
           \<and> generateFromHtml rt c htmlPath cssPath imgs w
               = post_generate rt c (HtmlData (data1\<lparr>images := Some []\<rparr>)) w)
     \<and> ((\<exists>e. processImages w imgs = Inl e) \<longrightarrow>
           (\<exists>i\<in>set imgs. passes_checks w i \<and> (\<exists>e. readFileSync w (img_path i) = Inl e)))"
proof -
  have drop: "processImages w imgs = processImages w (filter (passes_checks w) imgs)"
    unfolding processImages_def by (rule loop_filter)
  have attach: "\<forall>processed. processImages w imgs = Inr processed \<longrightarrow>
           processed = map (processed_of w) (filter (passes_checks w) imgs)
           \<and> generateFromHtml rt c htmlPath cssPath imgs w
               = post_generate rt c (HtmlData (data1\<lparr>images := Some processed\<rparr>)) w"
    using assms loop_result [of w imgs "[]"]
    by (simp add: generateFromHtml_unfold processImages_def)
  have none: "(\<forall>i\<in>set imgs. \<not> passes_checks w i) \<longrightarrow>
           processImages w imgs = Inr []
           \<and> generateFromHtml rt c htmlPath cssPath imgs w
               = post_generate rt c (HtmlData (data1\<lparr>images := Some []\<rparr>)) w"
    using assms loop_none_valid [of imgs w "[]"]
    by (simp add: generateFromHtml_unfold processImages_def)
  have err: "(\<exists>e. processImages w imgs = Inl e) \<longrightarrow>
           (\<exists>i\<in>set imgs. passes_checks w i \<and> (\<exists>e. readFileSync w (img_path i) = Inl e))"
  proof (intro impI, rule ccontr)
    assume e: "\<exists>e. processImages w imgs = Inl e"
    assume "\<not> (\<exists>i\<in>set imgs. passes_checks w i \<and> (\<exists>e. readFileSync w (img_path i) = Inl e))"
    then have "\<forall>i\<in>set imgs. passes_checks w i \<longrightarrow> (\<exists>b. files w (img_path i) = Some (File b))"
      using readFileSync_total [of w] by blast
    from loop_readable [OF this, of "[]"] e show False by (simp add: processImages_def)
  qed
  from drop attach none err show ?thesis by blast
qed

text \<open>
  Of three images, one good, the request carries the good one; of the two that fail
  the checks alone, the request carries an empty list and the call returns handle \<open>0\<close>.
\<close>

lemma checked_images_example:
  "processImages (test_world (serving ''pending'')) test_images
     = Inr [\<lparr>out_name = ''test.png'', out_content = ''iVBORw=='',
             out_mime_type = MimeString ''image/png''\<rparr>]
   \<and> requests (snd (generateFromHtml test_runtime test_client ''/tmp/test.html'' None test_images
                      (test_world (serving ''pending''))))
       = [post_request test_client ''/pdfs/generate''
            (HtmlData \<lparr>html = ''PHA+'', css = None,
                        images = Some [\<lparr>out_name = ''test.png'', out_content = ''iVBORw=='',
                                         out_mime_type = MimeString ''image/png''\<rparr>]\<rparr>)]
   \<and> fst (generateFromHtml test_runtime test_client ''/tmp/test.html'' None invalid_images
            (test_world (serving ''pending''))) = Inr 0
   \<and> requests (snd (generateFromHtml test_runtime test_client ''/tmp/test.html'' None
                      invalid_images (test_world (serving ''pending''))))
       = [post_request test_client ''/pdfs/generate''
            (HtmlData \<lparr>html = ''PHA+'', css = None, images = Some []\<rparr>)]"
proof -
  let ?w = "test_world (serving ''pending'')"
  let ?d = "\<lparr>html = ''PHA+'', css = None, images = None\<rparr>"
  let ?png = "\<lparr>out_name = ''test.png'', out_content = ''iVBORw=='',
               out_mime_type = MimeString ''image/png''\<rparr>"
  have local: "html_css_data ?w ''/tmp/test.html'' None = Inr ?d"
    by (rule html_css_data_test)
  have ne: "test_images \<noteq> []" "invalid_images \<noteq> []"
    by (simp_all add: test_images_def invalid_images_def)
  have valid: "filter (passes_checks ?w) test_images
                 = [\<lparr>img_name = ''test.png'', img_path = ''/tmp/test.png'', img_mimeType = None\<rparr>]"
    by (simp add: test_images_def passes_checks_def existsSync_def)
  have one: "processed_of ?w \<lparr>img_name = ''test.png'', img_path = ''/tmp/test.png'',
                                img_mimeType = None\<rparr> = ?png"
    by (simp add: processed_of_def file_bytes_def base64_examples detectMimeType_examples
          del: base64.simps)
  note t = checked_images_attached [OF local ne(1), of test_runtime test_client]
  have "\<forall>i\<in>set test_images. passes_checks ?w i
           \<longrightarrow> (\<exists>b. files ?w (img_path i) = Some (File b))"
    by (simp add: test_images_def passes_checks_def existsSync_def)
  from loop_readable [OF this, of "[]"] have p: "processImages ?w test_images = Inr [?png]"
    by (simp add: processImages_def valid one)
  from t p have "generateFromHtml test_runtime test_client ''/tmp/test.html'' None test_images ?w
           = post_generate test_runtime test_client (HtmlData (?d\<lparr>images := Some [?png]\<rparr>)) ?w"
    by blast
  then have r1: "requests (snd (generateFromHtml test_runtime test_client ''/tmp/test.html'' None
                      test_images ?w))
       = [post_request test_client ''/pdfs/generate''
            (HtmlData \<lparr>html = ''PHA+'', css = None, images = Some [?png]\<rparr>)]"
    by (simp add: post_generate_requests)
  have none: "\<forall>i\<in>set invalid_images. \<not> passes_checks ?w i"
    by (simp add: invalid_images_def passes_checks_def existsSync_def)
  from checked_images_attached [OF local ne(2), of test_runtime test_client] none
  have run: "generateFromHtml test_runtime test_client ''/tmp/test.html'' None invalid_images ?w
           = post_generate test_runtime test_client (HtmlData (?d\<lparr>images := Some []\<rparr>)) ?w"
    by blast
  have r2: "fst (generateFromHtml test_runtime test_client ''/tmp/test.html'' None
                   invalid_images ?w) = Inr 0"
    unfolding run
    using post_generate_test [of "serving ''pending''" "HtmlData (?d\<lparr>images := Some []\<rparr>)"
            "JNum (Finite 123)" "''pending''" "Finite 123"]
    by (simp add: serving_def)
  from run have r3: "requests (snd (generateFromHtml test_runtime test_client ''/tmp/test.html''
                      None invalid_images ?w))
       = [post_request test_client ''/pdfs/generate''
            (HtmlData \<lparr>html = ''PHA+'', css = None, images = Some []\<rparr>)]"
    by (simp add: post_generate_requests)
  from p r1 r2 r3 show ?thesis by blast
qed

subsection \<open>C5: getPdf and its identifier\<close>

text \<open>
  Claim C5, as amended. \<^verbatim>\<open>getPdf(id)\<close> throws \<^verbatim>\<open>InvalidArgumentException\<close> with the
  message \<open>Invalid PDF ID: \<close> followed by the id, and sends nothing, exactly when
  \<^verbatim>\<open>id <= 0\<close>: for zero, for a negative number and for \<open>-Infinity\<close>. For every other
  number it sends one GET to \<open>/pdfs/{id}\<close> below the base URL, the id printed as
  \<^verbatim>\<open>Number::toString\<close> prints it; that covers every positive integer (a safe integer
  prints as its decimal digits), and also \<open>NaN\<close>, \<open>Infinity\<close> and positive fractions,
  which the guard lets through.
\<close>

theorem getPdf_guard:
  "(le_zero id' \<longrightarrow>
      getPdf rt c id' w
        = (Inl (InvalidArgumentException (''Invalid PDF ID: '' @ number_to_string rt id')), w))
   \<and> (\<not> le_zero id' \<longrightarrow>
      requests (snd (getPdf rt c id' w))
        = requests w @ [get_request c (baseUrl c @ ''/pdfs/'' @ number_to_string rt id')])
   \<and> (le_zero id' \<longleftrightarrow> id' = NegInfinity \<or> (\<exists>q. id' = Finite q \<and> q \<le> 0))
   \<and> (\<forall>n. 0 < n \<and> int n \<le> MAX_SAFE_INTEGER \<longrightarrow>
         \<not> le_zero (Finite (of_nat n))
         \<and> requests (snd (getPdf rt c (Finite (of_nat n)) w))
             = requests w @ [get_request c (baseUrl c @ ''/pdfs/'' @ decimal n)])"
proof -
  have a: "le_zero id' \<longrightarrow>
      getPdf rt c id' w
        = (Inl (InvalidArgumentException (''Invalid PDF ID: '' @ number_to_string rt id')), w)"
    by (simp add: getPdf_unfold)
  have b: "\<not> le_zero id' \<longrightarrow>
      requests (snd (getPdf rt c id' w))
        = requests w @ [get_request c (baseUrl c @ ''/pdfs/'' @ number_to_string rt id')]"
    by (simp add: getPdf_requests)
  have d: "\<forall>n. 0 < n \<and> int n \<le> MAX_SAFE_INTEGER \<longrightarrow>
         \<not> le_zero (Finite (of_nat n))
         \<and> requests (snd (getPdf rt c (Finite (of_nat n)) w))
             = requests w @ [get_request c (baseUrl c @ ''/pdfs/'' @ decimal n)]"
  proof (intro allI impI)
    fix n :: nat
    assume n: "0 < n \<and> int n \<le> MAX_SAFE_INTEGER"
    then have pos: "\<not> le_zero (Finite (of_nat n))" by simp
    from n have "int n \<le> MAX_SAFE_INTEGER" by simp
    then have "number_to_string rt (Finite (of_nat n)) = decimal n"
      by (rule number_to_string_nat)
    with getPdf_requests [OF pos, of rt c w] pos
    show "\<not> le_zero (Finite (of_nat n))
         \<and> requests (snd (getPdf rt c (Finite (of_nat n)) w))
             = requests w @ [get_request c (baseUrl c @ ''/pdfs/'' @ decimal n)]"
      by simp
  qed
  from a b le_zero_iff [of id'] d show ?thesis by blast
qed

text \<open>The ids of the test suite: \<open>0\<close> and \<open>-1\<close> are refused, \<open>789\<close> is fetched.\<close>

theorem getPdf_guard_witness:
  "getPdf test_runtime test_client (Finite 0) (test_world (serving ''completed''))
     = (Inl (InvalidArgumentException ''Invalid PDF ID: 0''), test_world (serving ''completed''))
   \<and> getPdf test_runtime test_client (Finite (- 1)) (test_world (serving ''completed''))
     = (Inl (InvalidArgumentException ''Invalid PDF ID: -1''), test_world (serving ''completed''))
   \<and> requests (snd (getPdf test_runtime test_client (Finite 789) (test_world (serving ''completed''))))
     = [get_request test_client ''https://api.generatepdfs.com/pdfs/789'']"
proof -
  let ?w = "test_world (serving ''completed'')"
  have z: "le_zero (Finite 0)" and m: "le_zero (Finite (- 1))" by simp_all
  have s0: "number_to_string test_runtime (Finite 0) = ''0''"
    by (simp add: int_to_string_def decimal.simps MAX_SAFE_INTEGER_def)
  have s1: "number_to_string test_runtime (Finite (- 1)) = ''-1''"
    by (simp add: int_to_string_def decimal.simps floor_minus_one_rat MAX_SAFE_INTEGER_def)
  have d: "decimal 789 = ''789''" by (simp add: decimal.simps)
  have n: "(0::nat) < 789 \<and> int 789 \<le> MAX_SAFE_INTEGER"
    by (simp add: MAX_SAFE_INTEGER_def)
  from getPdf_guard [of "Finite 0" test_runtime test_client ?w] z s0
  have a: "getPdf test_runtime test_client (Finite 0) ?w
             = (Inl (InvalidArgumentException ''Invalid PDF ID: 0''), ?w)" by simp
  from getPdf_guard [of "Finite (- 1)" test_runtime test_client ?w] m s1
  have b: "getPdf test_runtime test_client (Finite (- 1)) ?w
             = (Inl (InvalidArgumentException ''Invalid PDF ID: -1''), ?w)" by simp
  from getPdf_guard [of "Finite 0" test_runtime test_client ?w] n
  have "requests (snd (getPdf test_runtime test_client (Finite (of_nat 789)) ?w))
          = requests ?w @ [get_request test_client (baseUrl test_client @ ''/pdfs/'' @ decimal 789)]"
    by blast
  then have c: "requests (snd (getPdf test_runtime test_client (Finite 789) ?w))
     = [get_request test_client ''https://api.generatepdfs.com/pdfs/789'']"
    by (simp add: d)
  from a b c show ?thesis by simp
qed

text \<open>
  The claim as stated, that every id which is not a positive integer is refused
  without a request, fails for \<open>NaN\<close> and for \<open>1.5\<close>: both are fetched, and the call
  returns a handle.
\<close>

theorem getPdf_guard_counterexample:
  "fst (getPdf test_runtime test_client NaN (test_world (serving ''completed''))) = Inr 0
   \<and> requests (snd (getPdf test_runtime test_client NaN (test_world (serving ''completed''))))
       = [get_request test_client ''https://api.generatepdfs.com/pdfs/NaN'']
   \<and> fst (getPdf test_runtime test_client (Finite (3 / 2)) (test_world (serving ''completed'')))
       = Inr 0
   \<and> requests (snd (getPdf test_runtime test_client (Finite (3 / 2))
                      (test_world (serving ''completed''))))
       = [get_request test_client ''https://api.generatepdfs.com/pdfs/1.5'']"
proof -
  let ?w = "test_world (serving ''completed'')"
  have s: "number_to_string test_runtime (Finite (3 / 2)) = ''1.5''"
    using three_halves by (simp add: test_runtime_def)
  have a: "getPdf test_runtime test_client NaN ?w
            = (Inr 0, (sent (get_request test_client ''https://api.generatepdfs.com/pdfs/NaN'') ?w)
                 \<lparr>heap := [test_pdf (Finite 123) ''completed'' test_client]\<rparr>)"
    using getPdf_test [of "serving ''completed''" NaN "JNum (Finite 123)" "''completed''"
            "Finite 123"]
    by (simp add: serving_def)
  have b: "getPdf test_runtime test_client (Finite (3 / 2)) ?w
            = (Inr 0, (sent (get_request test_client ''https://api.generatepdfs.com/pdfs/1.5'') ?w)
                 \<lparr>heap := [test_pdf (Finite 123) ''completed'' test_client]\<rparr>)"
    using getPdf_test [of "serving ''completed''" "Finite (3 / 2)" "JNum (Finite 123)"
            "''completed''" "Finite 123"]
    by (simp add: serving_def s del: number_to_string.simps)
  show ?thesis by (simp add: a b)
qed

subsection \<open>C6: the error of a failed request\<close>

text \<open>
  Claim C6, as amended. When the answer to the request that \<^verbatim>\<open>generateFromHtml\<close>,
  \<^verbatim>\<open>generateFromUrl\<close> or \<^verbatim>\<open>getPdf\<close> sent is not ok, the method throws an \<^verbatim>\<open>Error\<close>
  whose message is \<open>API request failed: \<close>, the status code, a space, the status text,
  \<open> - \<close> and the text of the body, so it carries all three. When the answer to the
  request of \<^verbatim>\<open>downloadPdf\<close> is not ok, the method throws an \<^verbatim>\<open>Error\<close> whose message is
  \<open>Failed to download PDF: \<close> and the status text only.
\<close>

theorem transport_error:
  assumes "server w (requests w) rq = Inr r" and "\<not> resp_ok r"
  shows "(requests (snd (generateFromHtml rt c htmlPath cssPath imgs w)) = requests w @ [rq]
            \<longrightarrow> fst (generateFromHtml rt c htmlPath cssPath imgs w) = Inl (api_error r))
     \<and> (requests (snd (generateFromUrl rt c url w)) = requests w @ [rq]
            \<longrightarrow> fst (generateFromUrl rt c url w) = Inl (api_error r))
     \<and> (requests (snd (getPdf rt c id' w)) = requests w @ [rq]
            \<longrightarrow> fst (getPdf rt c id' w) = Inl (api_error r))
     \<and> (requests (snd (downloadPdf c downloadUrl w)) = requests w @ [rq]
            \<longrightarrow> fst (downloadPdf c downloadUrl w)
                  = Inl (Error (''Failed to download PDF: '' @ resp_statusText r)))
     \<and> message (api_error r)
          = ''API request failed: '' @ decimal (resp_status r) @ '' '' @ resp_statusText r
            @ '' - '' @ resp_text r
     \<and> contains (decimal (resp_status r)) (message (api_error r))
     \<and> contains (resp_statusText r) (message (api_error r))
     \<and> contains (resp_text r) (message (api_error r))
     \<and> contains (resp_statusText r) (''Failed to download PDF: '' @ resp_statusText r)"
proof -
  have post: "\<And>body. requests (snd (post_generate rt c body w)) = requests w @ [rq] \<Longrightarrow>
                fst (post_generate rt c body w) = Inl (api_error r)"
  proof -
    fix body
    assume "requests (snd (post_generate rt c body w)) = requests w @ [rq]"
    then have "rq = post_request c ''/pdfs/generate'' body"
      by (simp add: post_generate_requests)
    with assms show "fst (post_generate rt c body w) = Inl (api_error r)"
      by (simp add: post_generate_failed)
  qed
  have html: "requests (snd (generateFromHtml rt c htmlPath cssPath imgs w)) = requests w @ [rq]
            \<longrightarrow> fst (generateFromHtml rt c htmlPath cssPath imgs w) = Inl (api_error r)"
    using post by (auto simp: generateFromHtml_unfold split: sum.splits if_splits)
  have url: "requests (snd (generateFromUrl rt c url w)) = requests w @ [rq]
            \<longrightarrow> fst (generateFromUrl rt c url w) = Inl (api_error r)"
    using post by (auto simp: generateFromUrl_unfold split: if_splits)
  have get: "requests (snd (getPdf rt c id' w)) = requests w @ [rq]
            \<longrightarrow> fst (getPdf rt c id' w) = Inl (api_error r)"
    using assms
    by (auto simp: getPdf_unfold handleResponse_frame split: sum.splits if_splits)
  have dl: "requests (snd (downloadPdf c downloadUrl w)) = requests w @ [rq]
            \<longrightarrow> fst (downloadPdf c downloadUrl w)
                  = Inl (Error (''Failed to download PDF: '' @ resp_statusText r))"
    using assms by (auto simp: downloadPdf_eq)
  have msg: "message (api_error r)
          = ''API request failed: '' @ decimal (resp_status r) @ '' '' @ resp_statusText r
            @ '' - '' @ resp_text r"
    by (simp add: api_error_def)
  have c1: "contains (decimal (resp_status r)) (message (api_error r))"
    unfolding msg by (rule contains_append)
  have c2: "contains (resp_statusText r) (message (api_error r))"
    using contains_append [of "resp_statusText r"
            "''API request failed: '' @ decimal (resp_status r) @ '' ''" "'' - '' @ resp_text r"]
    by (simp add: msg)
  have c3: "contains (resp_text r) (message (api_error r))"
    using contains_suffix [of "resp_text r"
            "''API request failed: '' @ decimal (resp_status r) @ '' '' @ resp_statusText r @ '' - ''"]
    by (simp add: msg)
  have c4: "contains (resp_statusText r) (''Failed to download PDF: '' @ resp_statusText r)"
    by (rule contains_suffix)
  from html url get dl msg c1 c2 c3 c4 show ?thesis by blast
qed

text \<open>Against a server that answers 404 to everything, the four methods fail so.\<close>

theorem transport_error_witness:
  "fst (generateFromHtml test_runtime test_client ''/tmp/test.html'' None [] (test_world failing))
     = Inl (Error ''API request failed: 404 Not Found - Error message'')
   \<and> fst (generateFromUrl test_runtime test_client ''https://example.com'' (test_world failing))
     = Inl (Error ''API request failed: 404 Not Found - Error message'')
   \<and> fst (getPdf test_runtime test_client (Finite 123) (test_world failing))
     = Inl (Error ''API request failed: 404 Not Found - Error message'')
   \<and> fst (downloadPdf test_client ''https://api.generatepdfs.com/pdfs/123/download/token''
            (test_world failing))
     = Inl (Error ''Failed to download PDF: Not Found'')"
proof -
  let ?w = "test_world failing"
  let ?r = not_found_response
  have srv: "server ?w (requests ?w) rq = Inr ?r" for rq by (simp add: failing_def)
  have bad: "\<not> resp_ok ?r" by (simp add: not_found_response_def)
  let ?html = "post_request test_client ''/pdfs/generate''
                 (HtmlData \<lparr>html = ''PHA+'', css = None, images = None\<rparr>)"
  have "requests (snd (generateFromHtml test_runtime test_client ''/tmp/test.html'' None [] ?w))
          = requests ?w @ [?html]"
    by (simp add: generateFromHtml_unfold html_css_data_test post_generate_requests)
  with transport_error [OF srv bad, of test_runtime test_client "''/tmp/test.html''" None "[]" ?html]
  have a: "fst (generateFromHtml test_runtime test_client ''/tmp/test.html'' None [] ?w)
             = Inl (api_error ?r)" by blast
  let ?url = "post_request test_client ''/pdfs/generate'' (UrlData ''https://example.com'')"
  have "requests (snd (generateFromUrl test_runtime test_client ''https://example.com'' ?w))
          = requests ?w @ [?url]"
    by (simp add: generateFromUrl_unfold post_generate_requests test_runtime_def)
  with transport_error [OF srv bad, of test_runtime test_client _ _ _ ?url "''https://example.com''"]
  have b: "fst (generateFromUrl test_runtime test_client ''https://example.com'' ?w)
             = Inl (api_error ?r)" by blast
  let ?get = "get_request test_client ''https://api.generatepdfs.com/pdfs/123''"
  have "requests (snd (getPdf test_runtime test_client (Finite 123) ?w)) = requests ?w @ [?get]"
    by (simp add: getPdf_requests number_123 del: number_to_string.simps)
  with transport_error [OF srv bad, of test_runtime test_client _ _ _ ?get _ "Finite 123"]
  have c: "fst (getPdf test_runtime test_client (Finite 123) ?w) = Inl (api_error ?r)" by blast
  let ?dl = "get_request test_client ''https://api.generatepdfs.com/pdfs/123/download/token''"
  have "requests (snd (downloadPdf test_client
                         ''https://api.generatepdfs.com/pdfs/123/download/token'' ?w))
          = requests ?w @ [?dl]"
    by (simp add: downloadPdf_eq)
  with transport_error [OF srv bad, of test_runtime test_client _ _ _ ?dl _ _
         "''https://api.generatepdfs.com/pdfs/123/download/token''"]
  have "fst (downloadPdf test_client ''https://api.generatepdfs.com/pdfs/123/download/token'' ?w)
          = Inl (Error (''Failed to download PDF: '' @ resp_statusText ?r))" by blast
  then have d: "fst (downloadPdf test_client
                       ''https://api.generatepdfs.com/pdfs/123/download/token'' ?w)
          = Inl (Error ''Failed to download PDF: Not Found'')"
    by (simp add: not_found_response_def)
  from a b c d show ?thesis by (simp add: api_error_not_found)
qed

text \<open>
  The claim as stated includes \<^verbatim>\<open>downloadPdf\<close> among the methods whose error carries
  the status code and the body; its message has neither.
\<close>

theorem transport_error_counterexample:
  "fst (downloadPdf test_client ''https://api.generatepdfs.com/pdfs/123/download/token''
          (test_world failing))
     = Inl (Error ''Failed to download PDF: Not Found'')
   \<and> \<not> contains (decimal (resp_status not_found_response)) ''Failed to download PDF: Not Found''
   \<and> \<not> contains (resp_text not_found_response) ''Failed to download PDF: Not Found''"
proof -
  have a: "fst (downloadPdf test_client ''https://api.generatepdfs.com/pdfs/123/download/token''
          (test_world failing))
     = Inl (Error ''Failed to download PDF: Not Found'')"
    by (simp add: downloadPdf_eq failing_def not_found_response_def)
  have b: "\<not> contains ''404'' ''Failed to download PDF: Not Found''" by simp
  have c: "\<not> contains ''Error message'' ''Failed to download PDF: Not Found''" by simp
  from a b c show ?thesis by (simp add: not_found_response_def decimal.simps)
qed

subsection \<open>C7: the HTML and CSS files\<close>

text \<open>
  Claim C7 says that \<^verbatim>\<open>generateFromHtml\<close> throws \<^verbatim>\<open>InvalidArgumentException\<close> with the
  message \<open>HTML file not found or not readable: \<close> and the path whenever \<open>htmlPath\<close> is
  not an existing readable file, and likewise with the CSS message for \<open>cssPath\<close>. The
  code tests existence only. For a path that exists and cannot be read (here a
  directory) \<^verbatim>\<open>existsSync\<close> is true and \<^verbatim>\<open>readFileSync\<close> throws the file system's own
  error, which leaves the method in place of the \<^verbatim>\<open>InvalidArgumentException\<close> that the
  message and the method's documentation promise. No request is sent either way.
\<close>

theorem generateFromHtml_directory:
  "generateFromHtml test_runtime test_client ''/tmp'' None [] (test_world (serving ''pending''))
     = (Inl (Error ''EISDIR: illegal operation on a directory, read''),
        test_world (serving ''pending''))
   \<and> generateFromHtml test_runtime test_client ''/tmp/test.html'' (Some ''/tmp'') []
        (test_world (serving ''pending''))
     = (Inl (Error ''EISDIR: illegal operation on a directory, read''),
        test_world (serving ''pending''))"
  by (simp add: generateFromHtml_unfold html_css_data_def existsSync_def readFileSync_def)

text \<open>
  The rest of the claim holds: a path that does not exist is refused with the
  message (\<open>generateFromHtml_missing_html\<close>, \<open>generateFromHtml_missing_css\<close>), and two
  readable files are encoded into the \<open>html\<close> and \<open>css\<close> fields
  (\<open>generateFromHtml_encodes\<close>).
\<close>

subsection \<open>C8: generateFromUrl\<close>

text \<open>
  Claim C8. For every string \<open>url\<close>: when \<^verbatim>\<open>new URL(url)\<close> throws, \<^verbatim>\<open>generateFromUrl\<close>
  throws \<^verbatim>\<open>InvalidArgumentException\<close> with the message \<open>Invalid URL: \<close> followed by the
  url and leaves the world, and so the log of requests, as it was. When the url parses,
  the method sends exactly one request, the POST of the payload \<open>{url}\<close> to
  \<open>/pdfs/generate\<close>, and nothing to the url itself.
\<close>

theorem generateFromUrl_spec:
  "(\<not> url_parses rt url \<longrightarrow>
      generateFromUrl rt c url w = (Inl (InvalidArgumentException (''Invalid URL: '' @ url)), w))
   \<and> (url_parses rt url \<longrightarrow>
      generateFromUrl rt c url w = post_generate rt c (UrlData url) w
      \<and> requests (snd (generateFromUrl rt c url w))
          = requests w @ [post_request c ''/pdfs/generate'' (UrlData url)])"
  by (simp add: generateFromUrl_unfold post_generate_requests)

text \<open>The two urls of the test suite.\<close>

theorem generateFromUrl_spec_witness:
  "generateFromUrl test_runtime test_client ''not-a-valid-url'' (test_world (serving ''pending''))
     = (Inl (InvalidArgumentException ''Invalid URL: not-a-valid-url''),
        test_world (serving ''pending''))
   \<and> fst (generateFromUrl test_runtime test_client ''https://example.com''
            (test_world (serving ''pending''))) = Inr 0
   \<and> requests (snd (generateFromUrl test_runtime test_client ''https://example.com''
                      (test_world (serving ''pending''))))
       = [post_request test_client ''/pdfs/generate'' (UrlData ''https://example.com'')]"
proof -
  let ?w = "test_world (serving ''pending'')"
  have bad: "\<not> url_parses test_runtime ''not-a-valid-url''"
    and good: "url_parses test_runtime ''https://example.com''"
    by (simp_all add: test_runtime_def)
  from generateFromUrl_spec [of test_runtime "''not-a-valid-url''" test_client ?w] bad
  have a: "generateFromUrl test_runtime test_client ''not-a-valid-url'' ?w
     = (Inl (InvalidArgumentException (''Invalid URL: '' @ ''not-a-valid-url'')), ?w)" by blast
  from generateFromUrl_spec [of test_runtime "''https://example.com''" test_client ?w] good
  have run: "generateFromUrl test_runtime test_client ''https://example.com'' ?w
               = post_generate test_runtime test_client (UrlData ''https://example.com'') ?w"
    and rq: "requests (snd (generateFromUrl test_runtime test_client ''https://example.com'' ?w))
       = requests ?w @ [post_request test_client ''/pdfs/generate'' (UrlData ''https://example.com'')]"
    by blast+
  have b: "fst (generateFromUrl test_runtime test_client ''https://example.com'' ?w) = Inr 0"
    unfolding run
    using post_generate_test [of "serving ''pending''" "UrlData ''https://example.com''"
            "JNum (Finite 123)" "''pending''" "Finite 123"]
    by (simp add: serving_def)
  from a b rq show ?thesis by simp
qed

subsection \<open>C9: refresh leaves the handle alone\<close>

text \<open>
  Claim C9. For every handle \<open>h\<close> of the heap, \<^verbatim>\<open>refresh()\<close> is the owning client's
  \<^verbatim>\<open>getPdf\<close> on the handle's own id. It changes no existing object: the heap before
  is a prefix of the heap after, so the object of \<open>h\<close> and each of its five fields are
  what they were. A handle it returns is a new one, different from \<open>h\<close>.
\<close>

theorem refresh_frame:
  assumes "h < length (heap w)"
  shows "refresh rt h w = getPdf rt (pdf_client (heap w ! h)) (getId h w) w
     \<and> take (length (heap w)) (heap (snd (refresh rt h w))) = heap w
     \<and> heap (snd (refresh rt h w)) ! h = heap w ! h
     \<and> getId h (snd (refresh rt h w)) = getId h w
     \<and> getName h (snd (refresh rt h w)) = getName h w
     \<and> getStatus h (snd (refresh rt h w)) = getStatus h w
     \<and> getDownloadUrl h (snd (refresh rt h w)) = getDownloadUrl h w
     \<and> getCreatedAt h (snd (refresh rt h w)) = getCreatedAt h w
     \<and> (\<forall>h'. fst (refresh rt h w) = Inr h' \<longrightarrow>
           h' = length (heap w) \<and> h' \<noteq> h
           \<and> length (heap (snd (refresh rt h w))) = Suc (length (heap w)))"
proof -
  let ?c = "pdf_client (heap w ! h)"
  let ?res = "getPdf rt ?c (pdf_id (heap w ! h)) w"
  have eq: "refresh rt h w = ?res" by (simp add: refresh_def Let_def)
  have grow: "(\<exists>e. fst ?res = Inl e \<and> heap (snd ?res) = heap w)
            \<or> (\<exists>p. fst ?res = Inr (length (heap w)) \<and> heap (snd ?res) = heap w @ [p])"
  proof (cases "fst ?res")
    case (Inl e)
    then have "?res = (Inl e, snd ?res)" by (metis prod.collapse)
    from getPdf_heap_error [OF this] Inl show ?thesis by simp
  next
    case (Inr h')
    then have "?res = (Inr h', snd ?res)" by (metis prod.collapse)
    from getPdf_handle [OF this] Inr show ?thesis by auto
  qed
  then have prefix: "take (length (heap w)) (heap (snd ?res)) = heap w" by auto
  from grow assms have same: "heap (snd ?res) ! h = heap w ! h" by (auto simp: nth_append)
  from grow assms have new: "\<forall>h'. fst ?res = Inr h' \<longrightarrow>
           h' = length (heap w) \<and> h' \<noteq> h \<and> length (heap (snd ?res)) = Suc (length (heap w))"
    by auto
  from prefix same new show ?thesis
    by (simp add: eq getId_def getName_def getStatus_def getDownloadUrl_def getCreatedAt_def)
qed

text \<open>
  A pending handle refreshed against a server that reports the job completed: the
  new handle \<open>1\<close> is ready, the old handle \<open>0\<close> is still pending.
\<close>

theorem refresh_frame_witness:
  "fst (refresh test_runtime 0 (holding ''pending'' (test_world (serving ''completed'')))) = Inr 1
   \<and> getStatus 1 (snd (refresh test_runtime 0
                         (holding ''pending'' (test_world (serving ''completed'')))))
       = ''completed''
   \<and> isReady 1 (snd (refresh test_runtime 0
                       (holding ''pending'' (test_world (serving ''completed'')))))
   \<and> getStatus 0 (snd (refresh test_runtime 0
                         (holding ''pending'' (test_world (serving ''completed'')))))
       = ''pending''
   \<and> \<not> isReady 0 (snd (refresh test_runtime 0
                         (holding ''pending'' (test_world (serving ''completed'')))))
   \<and> heap (snd (refresh test_runtime 0
                  (holding ''pending'' (test_world (serving ''completed''))))) ! 0
       = heap (holding ''pending'' (test_world (serving ''completed''))) ! 0"
proof -
  let ?w = "holding ''pending'' (test_world (serving ''completed''))"
  let ?rq = "get_request test_client ''https://api.generatepdfs.com/pdfs/123''"
  let ?new = "test_pdf (Finite 123) ''completed'' test_client"
  have len: "0 < length (heap ?w)" by simp
  note t = refresh_frame [OF len, of test_runtime]
  have handled: "handleResponse test_runtime test_client
                   (JObj [(''data'', test_data (JNum (Finite 123)) ''completed'')]) (sent ?rq ?w)
                 = (Inr 1, (sent ?rq ?w)\<lparr>heap := heap ?w @ [?new]\<rparr>)"
    using test_response_handled [of "JNum (Finite 123)" "''completed''" "Finite 123"
            test_client "sent ?rq ?w"]
    by simp
  from t have "refresh test_runtime 0 ?w
                 = getPdf test_runtime (pdf_client (heap ?w ! 0)) (getId 0 ?w) ?w" by blast
  then have run: "refresh test_runtime 0 ?w
                 = (Inr 1, (sent ?rq ?w)\<lparr>heap := heap ?w @ [?new]\<rparr>)"
    by (simp add: getPdf_unfold number_123 serving_def ok_response_def handled
          del: number_to_string.simps)
  then have r1: "fst (refresh test_runtime 0 ?w) = Inr 1" by simp
  from run have r2: "getStatus 1 (snd (refresh test_runtime 0 ?w)) = ''completed''"
    and r3: "isReady 1 (snd (refresh test_runtime 0 ?w))"
    by (simp_all add: getStatus_def isReady_def)
  from t have "getStatus 0 (snd (refresh test_runtime 0 ?w)) = getStatus 0 ?w" by blast
  then have r4: "getStatus 0 (snd (refresh test_runtime 0 ?w)) = ''pending''" by simp
  then have r5: "\<not> isReady 0 (snd (refresh test_runtime 0 ?w))"
    by (simp add: isReady_def getStatus_def)
  from t have r6: "heap (snd (refresh test_runtime 0 ?w)) ! 0 = heap ?w ! 0" by blast
  from r1 r2 r3 r4 r5 r6 show ?thesis by blast
qed

subsection \<open>C10: every returned handle went through the factory\<close>

text \<open>
  Claim C10, as amended. Every handle that \<^verbatim>\<open>generateFromHtml\<close>, \<^verbatim>\<open>generateFromUrl\<close>,
  \<^verbatim>\<open>getPdf\<close> or \<^verbatim>\<open>refresh\<close> returns was built by \<^verbatim>\<open>Pdf.fromArray\<close> from the \<open>data\<close>
  property of the decoded answer, after that property was found truthy. The five raw
  fields are truthy, the getters return \<^verbatim>\<open>Number\<close> of the raw id and \<^verbatim>\<open>String\<close> of the
  raw name, status and download URL, and the creation date is valid. When the raw
  fields have the declared types (the id a number, the others strings), the values the
  getters return are truthy as well.
\<close>

theorem returned_handles_validated:
  "(generateFromHtml rt c htmlPath cssPath imgs w = (Inr h, w') \<longrightarrow> validated_handle rt c w h w')
   \<and> (generateFromUrl rt c url w = (Inr h, w') \<longrightarrow> validated_handle rt c w h w')
   \<and> (getPdf rt c id' w = (Inr h, w') \<longrightarrow> validated_handle rt c w h w')
   \<and> (refresh rt h0 w = (Inr h, w') \<longrightarrow> validated_handle rt (pdf_client (heap w ! h0)) w h w')"
proof (intro conjI impI)
  assume "generateFromHtml rt c htmlPath cssPath imgs w = (Inr h, w')"
  then obtain body where "post_generate rt c body w = (Inr h, w')"
    by (auto simp: generateFromHtml_unfold split: sum.splits if_splits)
  then show "validated_handle rt c w h w'" by (rule post_generate_validated)
next
  assume "generateFromUrl rt c url w = (Inr h, w')"
  then have "post_generate rt c (UrlData url) w = (Inr h, w')"
    by (auto simp: generateFromUrl_unfold split: if_splits)
  then show "validated_handle rt c w h w'" by (rule post_generate_validated)
next
  assume "getPdf rt c id' w = (Inr h, w')"
  then show "validated_handle rt c w h w'" by (rule getPdf_validated)
next
  assume "refresh rt h0 w = (Inr h, w')"
  then have "getPdf rt (pdf_client (heap w ! h0)) (pdf_id (heap w ! h0)) w = (Inr h, w')"
    by (simp add: refresh_def Let_def)
  then show "validated_handle rt (pdf_client (heap w ! h0)) w h w'" by (rule getPdf_validated)
qed

text \<open>The job of the test suite, fetched: every getter returns a truthy value.\<close>

theorem returned_handles_validated_witness:
  "fst (getPdf test_runtime test_client (Finite 123) (test_world (serving ''completed''))) = Inr 0
   \<and> fields_truthy 0
        (snd (getPdf test_runtime test_client (Finite 123) (test_world (serving ''completed''))))
   \<and> getId 0 (snd (getPdf test_runtime test_client (Finite 123)
                      (test_world (serving ''completed'')))) = Finite 123
   \<and> getName 0 (snd (getPdf test_runtime test_client (Finite 123)
                      (test_world (serving ''completed'')))) = ''test.pdf''
   \<and> getStatus 0 (snd (getPdf test_runtime test_client (Finite 123)
                      (test_world (serving ''completed'')))) = ''completed''"
proof -
  let ?w = "test_world (serving ''completed'')"
  let ?rq = "get_request test_client ''https://api.generatepdfs.com/pdfs/123''"
  let ?w' = "(sent ?rq ?w)\<lparr>heap := [test_pdf (Finite 123) ''completed'' test_client]\<rparr>"
  let ?d = "test_data (JNum (Finite 123)) ''completed''"
  have run: "getPdf test_runtime test_client (Finite 123) ?w = (Inr 0, ?w')"
    using getPdf_test [of "serving ''completed''" "Finite 123" "JNum (Finite 123)" "''completed''"
            "Finite 123"]
    by (simp add: serving_def number_123 del: number_to_string.simps)
  from returned_handles_validated [of test_runtime test_client _ _ _ ?w 0 ?w' _ "Finite 123"] run
  have v: "validated_handle test_runtime test_client ?w 0 ?w'" by blast
  have d: "response_data ?w (last (requests ?w')) = ?d"
    by (simp add: response_data_def serving_def ok_response_def)
  have ty: "declared_types ?d"
    by (simp add: declared_types_def test_data_def test_fields_def)
  from v d ty have ft: "fields_truthy 0 ?w'" and hd: "handle_of_data test_runtime ?d 0 ?w'"
    by (simp_all add: validated_handle_def Let_def)
  from hd have g: "getId 0 ?w' = Finite 123" "getName 0 ?w' = ''test.pdf''"
    "getStatus 0 ?w' = ''completed''"
    by (simp_all add: handle_of_data_def test_data_def test_fields_def)
  from run ft g show ?thesis by simp
qed

text \<open>
  The claim as stated, that no returned handle has a falsy field, fails when the
  server sends an id that is not a number: the string \<open>abc\<close> is truthy, passes the
  check, and \<^verbatim>\<open>Number("abc")\<close> is \<open>NaN\<close>, which \<^verbatim>\<open>getId()\<close> then returns.
\<close>

theorem returned_handles_validated_counterexample:
  "fst (getPdf test_runtime test_client (Finite 123) (test_world serving_text_id)) = Inr 0
   \<and> getId 0 (snd (getPdf test_runtime test_client (Finite 123) (test_world serving_text_id)))
       = NaN
   \<and> \<not> num_truthy
         (getId 0 (snd (getPdf test_runtime test_client (Finite 123) (test_world serving_text_id))))
   \<and> \<not> fields_truthy 0
         (snd (getPdf test_runtime test_client (Finite 123) (test_world serving_text_id)))"
proof -
  let ?w = "test_world serving_text_id"
  have nan: "to_number test_runtime (JStr ''abc'') = Inr NaN"
    by (simp add: test_runtime_def)
  have run: "getPdf test_runtime test_client (Finite 123) ?w
     = (Inr 0, (sent (get_request test_client ''https://api.generatepdfs.com/pdfs/123'') ?w)
                 \<lparr>heap := [test_pdf NaN ''pending'' test_client]\<rparr>)"
    using getPdf_test [of serving_text_id "Finite 123" "JStr ''abc''" "''pending''" NaN] nan
    by (simp add: serving_text_id_def number_123 del: number_to_string.simps to_number.simps)
  show ?thesis
    by (simp add: run fields_truthy_def getId_def)
qed

end
